theory Spec2Isabelle
  imports Complex_Main "HOL-Library.Multiset"
begin

section \<open>The mail relay of \<open>src/server.js\<close>\<close>

text \<open>
  The service accepts a request (recipients, subject, a named template or raw HTML) and
  relays it through one of three preconfigured mail accounts. This theory embeds the
  handler factory \<open>createSendHandler\<close> (lines 239 to 398, the version with several accounts
  and a delay between sends), the transporter factory \<open>createTransporter\<close>, the request
  schema and the three routes, and proves properties of the delivery modes.

  Collaborators outside the repository are parameters:
  \<^item> the mail transport (\<open>sendMail\<close> of a nodemailer transporter): a function from a message
    and the transport's own state to an outcome, the time the call took, and a new state;
    \<open>Inl\<close> is a rejected promise;
  \<^item> \<open>hbs.compile\<close>: from a template string to a compiled template or a thrown error; the
    compiled template, applied to a context, gives the rendered text or a thrown error; what
    the code's \<open>hbs\<close> does is \<open>plugin_compile\<close> below;
  \<^item> the \<open>email\<close> format of the schema validator: a predicate on strings.

  Effects are explicit: the state holds a clock in milliseconds (what \<open>Date.now()\<close> reads),
  the transport's state, and the trace of effects in the order they were issued. Only awaited
  operations advance the clock. Log lines are not modelled.
\<close>

subsection \<open>Values\<close>

datatype json = JNull | JBool bool | JNum int | JStr string
  | JArr "json list" | JObj "(string \<times> json) list"

type_synonym "context" = "string \<rightharpoonup> json"

text \<open>A thrown or rejected JavaScript \<open>Error\<close>: its \<open>name\<close> and its \<open>message\<close>.\<close>

datatype error = Error (err_name: string) (message: string)

text \<open>\<open>String(err)\<close>, that is \<open>Error.prototype.toString\<close>.\<close>

definition error_toString :: "error \<Rightarrow> string" where
  "error_toString e =
     (if err_name e = [] then message e
      else if message e = [] then err_name e
      else err_name e @ '': '' @ message e)"

text \<open>Schema \<open>Recipient\<close>: \<open>email\<close> is required, \<open>name\<close> is optional, nothing else is allowed.\<close>

record recipient =
  email :: string
  name :: "string option"

text \<open>
  Schema \<open>SendEmailRequest\<close>, as \<open>req.body\<close>. The required fields are plain, an optional
  field is \<open>None\<close> when the request leaves it out. \<open>context'\<close> and \<open>from'\<close> are the
  fields \<open>context\<close> and \<open>from\<close>.
\<close>

record body =
  recipients :: "recipient list"
  subject :: string
  template :: "string option"
  context' :: "context option"
  html :: "string option"
  from' :: "string option"
  individual :: "bool option"
  delaySeconds :: "int option"

text \<open>The object handed to \<open>sendMail\<close>.\<close>

record message =
  m_from :: string
  m_to :: "string option"
  m_bcc :: "string option"
  m_subject :: string
  m_template :: "string option"
  m_context :: "context option"
  m_html :: "string option"

text \<open>What a fulfilled \<open>sendMail\<close> gives.\<close>

record info =
  messageId :: string
  accepted :: "string list"
  rejected :: "string list"

type_synonym 'w transporter = "message \<Rightarrow> 'w \<Rightarrow> (error + info) \<times> nat \<times> 'w"

type_synonym compiled = "context \<Rightarrow> error + string"

type_synonym compiler = "string \<Rightarrow> error + compiled"

subsection \<open>Effects\<close>

datatype event =
    Compiled string
  | Rendered "context"
  | Sent message nat
  | Slept nat

record 'w state =
  clock :: nat
  world :: 'w
  trace :: "event list"

text \<open>
  The delay of \<open>setTimeout(resolve, ms)\<close>: the runtime sets a delay that is larger than
  \<open>2147483647\<close> or less than 1 to 1.
\<close>

definition timeout_of :: "nat \<Rightarrow> nat" where
  "timeout_of ms = (if ms > 2147483647 \<or> ms < 1 then 1 else ms)"

text \<open>
  \<open>await sleep(ms)\<close>: the timer gives control back once its delay has passed; the event
  records the time slept.
\<close>

definition sleep :: "nat \<Rightarrow> 'w state \<Rightarrow> 'w state" where
  "sleep ms st =
     st\<lparr>clock := clock st + timeout_of ms, trace := trace st @ [Slept (timeout_of ms)]\<rparr>"

text \<open>\<open>await transporterInstance.sendMail(m)\<close>: one call, awaited before anything else runs.\<close>

definition await_sendMail ::
  "'w transporter \<Rightarrow> message \<Rightarrow> 'w state \<Rightarrow> (error + info) \<times> 'w state" where
  "await_sendMail t m st =
     (case t m (world st) of
        (res, took, w) \<Rightarrow>
          (res, st\<lparr>clock := clock st + took, world := w, trace := trace st @ [Sent m took]\<rparr>))"

subsection \<open>Replies\<close>

record ok_entry =
  ok_recipient :: string
  ok_messageId :: string
  ok_accepted :: "string list"

record fail_entry =
  fail_recipient :: string
  fail_error :: string

text \<open>
  The reply bodies: \<open>{error, message}\<close>; the framework's own answer to a body that fails the
  schema; \<open>{mode: "bcc", messageId, accepted, rejected}\<close>; \<open>{mode: "individual", ok, fail}\<close>;
  \<open>{mode: "individual_delayed", totalSent, durationSeconds, ok, fail}\<close>.
\<close>

datatype payload =
    ErrorBody string string
  | ValidationFailure
  | BccBody string "string list" "string list"
  | IndividualBody "ok_entry list" "fail_entry list"
  | DelayedBody nat rat "ok_entry list" "fail_entry list"

record reply =
  code :: nat
  payload :: payload

fun mode :: "payload \<Rightarrow> string option" where
  "mode (BccBody _ _ _) = Some ''bcc''"
| "mode (IndividualBody _ _) = Some ''individual''"
| "mode (DelayedBody _ _ _ _) = Some ''individual_delayed''"
| "mode _ = None"

subsection \<open>Small JavaScript idioms\<close>

text \<open>A string that may be \<open>undefined\<close> is truthy when it is there and not empty.\<close>

definition truthy :: "string option \<Rightarrow> bool" where
  "truthy v = (case v of None \<Rightarrow> False | Some s \<Rightarrow> s \<noteq> [])"

text \<open>\<open>a || b\<close> on strings.\<close>

definition js_or :: "string option \<Rightarrow> string \<Rightarrow> string" where
  "js_or a b = (case a of None \<Rightarrow> b | Some s \<Rightarrow> if s \<noteq> [] then s else b)"

text \<open>A value inside a template literal: \<open>undefined\<close> prints as the word.\<close>

definition interp :: "string option \<Rightarrow> string" where
  "interp v = (case v of None \<Rightarrow> ''undefined'' | Some s \<Rightarrow> s)"

definition dq :: string where
  "dq = [CHR 0x22]"

text \<open>\<open>xs.join(sep)\<close>.\<close>

fun join :: "string \<Rightarrow> string list \<Rightarrow> string" where
  "join sep [] = []"
| "join sep [x] = x"
| "join sep (x # y # ys) = x @ sep @ join sep (y # ys)"

text \<open>The own properties of a recipient object, as a template context.\<close>

definition own_properties :: "recipient \<Rightarrow> context" where
  "own_properties r =
     (case name r of
        None \<Rightarrow> [''email'' \<mapsto> JStr (email r)]
      | Some n \<Rightarrow> [''email'' \<mapsto> JStr (email r), ''name'' \<mapsto> JStr n])"

subsection \<open>The handler\<close>

text \<open>\<open>const fmt = (r) => (r.name ? `"${r.name}" <${r.email}>` : r.email)\<close>\<close>

definition fmt :: "recipient \<Rightarrow> string" where
  "fmt r =
     (case name r of
        None \<Rightarrow> email r
      | Some n \<Rightarrow> if n \<noteq> [] then dq @ n @ dq @ '' <'' @ email r @ ''>'' else email r)"

text \<open>The destructuring defaults \<open>context = {}\<close>, \<open>individual = false\<close>, \<open>delaySeconds = 0\<close>.\<close>

definition context_of :: "body \<Rightarrow> context" where
  "context_of b = (case context' b of None \<Rightarrow> Map.empty | Some c \<Rightarrow> c)"

definition individual_of :: "body \<Rightarrow> bool" where
  "individual_of b = (case individual b of None \<Rightarrow> False | Some i \<Rightarrow> i)"

definition delaySeconds_of :: "body \<Rightarrow> int" where
  "delaySeconds_of b = (case delaySeconds b of None \<Rightarrow> 0 | Some d \<Rightarrow> d)"

text \<open>\<open>userFromName || defaultFromName || "No-Reply"\<close>\<close>

definition displayName :: "string option \<Rightarrow> string option \<Rightarrow> string" where
  "displayName userFromName defaultFromName =
     js_or userFromName (js_or defaultFromName ''No-Reply'')"

text \<open>\<open>`"${displayName}" <${defaultFromEmail}>`\<close>\<close>

definition from_header :: "string \<Rightarrow> string option \<Rightarrow> string" where
  "from_header display defaultFromEmail =
     dq @ display @ dq @ '' <'' @ interp defaultFromEmail @ ''>''"

text \<open>
  The object literal of every \<open>sendMail\<close> call:
  \<open>{from, to | bcc, subject, ...(template ? {template, context} : {html})}\<close>.
\<close>

definition mail ::
  "string \<Rightarrow> string option \<Rightarrow> string option \<Rightarrow> body \<Rightarrow> context \<Rightarrow> string option \<Rightarrow> message" where
  "mail from to bcc b ctx h =
     \<lparr>m_from = from, m_to = to, m_bcc = bcc, m_subject = subject b,
      m_template = (if truthy (template b) then template b else None),
      m_context = (if truthy (template b) then Some ctx else None),
      m_html = (if truthy (template b) then None else h)\<rparr>"

text \<open>\<open>let htmlTemplate = null; if (html) { htmlTemplate = hbs.compile(html); }\<close>\<close>

definition compile_html ::
  "compiler \<Rightarrow> string option \<Rightarrow> 'w state \<Rightarrow> (error + compiled option) \<times> 'w state" where
  "compile_html hbs_compile h st =
     (case h of
        None \<Rightarrow> (Inr None, st)
      | Some s \<Rightarrow>
          if s \<noteq> [] then
            (case hbs_compile s of Inl e \<Rightarrow> Inl e | Inr f \<Rightarrow> Inr (Some f),
             st\<lparr>trace := trace st @ [Compiled s]\<rparr>)
          else (Inr None, st))"

text \<open>\<open>const finalHtml = htmlTemplate ? htmlTemplate(r) : undefined\<close>\<close>

definition render_for ::
  "compiled option \<Rightarrow> recipient \<Rightarrow> 'w state \<Rightarrow> (error + string option) \<times> 'w state" where
  "render_for htmlTemplate r st =
     (case htmlTemplate of
        None \<Rightarrow> (Inr None, st)
      | Some f \<Rightarrow>
          (case f (own_properties r) of Inl e \<Rightarrow> Inl e | Inr s \<Rightarrow> Inr (Some s),
           st\<lparr>trace := trace st @ [Rendered (own_properties r)]\<rparr>))"

text \<open>
  Mode A, the body of the \<open>try\<close> of one iteration and its \<open>catch\<close>: render, merge the
  context, send, and push to \<open>ok\<close> or to \<open>fail\<close>.
\<close>

definition delayed_send ::
  "'w transporter \<Rightarrow> compiled option \<Rightarrow> string \<Rightarrow> body \<Rightarrow> recipient \<Rightarrow>
   ok_entry list \<times> fail_entry list \<times> 'w state \<Rightarrow> ok_entry list \<times> fail_entry list \<times> 'w state" where
  "delayed_send t htmlTemplate from b r acc =
     (case acc of
        (ok, fail, st) \<Rightarrow>
          (case render_for htmlTemplate r st of
             (Inl err, st1) \<Rightarrow>
               (ok, fail @ [\<lparr>fail_recipient = email r, fail_error = message err\<rparr>], st1)
           | (Inr finalHtml, st1) \<Rightarrow>
               (let finalContext =
                      (if truthy (template b) then context_of b ++ own_properties r else Map.empty)
                in case await_sendMail t (mail from (Some (fmt r)) None b finalContext finalHtml) st1 of
                     (Inr res, st2) \<Rightarrow>
                       (ok @ [\<lparr>ok_recipient = email r, ok_messageId = messageId res,
                               ok_accepted = accepted res\<rparr>], fail, st2)
                   | (Inl err, st2) \<Rightarrow>
                       (ok, fail @ [\<lparr>fail_recipient = email r, fail_error = message err\<rparr>], st2))))"

text \<open>
  Mode A, \<open>for (const [index, r] of recipients.entries())\<close>: the delay before every
  recipient but the first, then the send.
\<close>

fun delayed_loop ::
  "'w transporter \<Rightarrow> compiled option \<Rightarrow> string \<Rightarrow> body \<Rightarrow> nat \<Rightarrow> recipient list \<Rightarrow>
   ok_entry list \<times> fail_entry list \<times> 'w state \<Rightarrow> ok_entry list \<times> fail_entry list \<times> 'w state" where
  "delayed_loop t htmlTemplate from b index [] acc = acc"
| "delayed_loop t htmlTemplate from b index (r # rs) acc =
     (case acc of
        (ok, fail, st) \<Rightarrow>
          delayed_loop t htmlTemplate from b (Suc index) rs
            (delayed_send t htmlTemplate from b r
               (ok, fail,
                if index > 0 then sleep (nat (delaySeconds_of b * 1000)) st else st)))"

definition sendDelayed ::
  "'w transporter \<Rightarrow> compiled option \<Rightarrow> string \<Rightarrow> body \<Rightarrow> nat \<Rightarrow> 'w state \<Rightarrow> reply \<times> 'w state" where
  "sendDelayed t htmlTemplate from b startTime st =
     (case delayed_loop t htmlTemplate from b 0 (recipients b) ([], [], st) of
        (ok, fail, st1) \<Rightarrow>
          (\<lparr>code = 207,
            payload = DelayedBody (length ok) (of_nat (clock st1 - startTime) / 1000) ok fail\<rparr>,
           st1))"

text \<open>
  Mode B, \<open>recipients.map((r) => transporterInstance.sendMail({...}))\<close>: every call is
  started, in list order, before any is awaited.
\<close>

fun start_all :: "'w transporter \<Rightarrow> message list \<Rightarrow> 'w \<Rightarrow> ((error + info) \<times> nat) list \<times> 'w" where
  "start_all t [] w = ([], w)"
| "start_all t (m # ms) w =
     (case t m w of
        (res, took, w1) \<Rightarrow>
          (case start_all t ms w1 of (rest, w2) \<Rightarrow> ((res, took) # rest, w2)))"

text \<open>
  \<open>await Promise.allSettled(...)\<close>: the handler goes on when the slowest call has settled;
  the results come in the order of the calls.
\<close>

definition allSettled ::
  "'w transporter \<Rightarrow> message list \<Rightarrow> 'w state \<Rightarrow> (error + info) list \<times> 'w state" where
  "allSettled t ms st =
     (case start_all t ms (world st) of
        (results, w) \<Rightarrow>
          (map fst results,
           st\<lparr>clock := clock st + fold max (map snd results) 0, world := w,
              trace := trace st @ map2 Sent ms (map snd results)\<rparr>))"

text \<open>\<open>results.forEach((res, idx) => { const target = recipients[idx]; ... })\<close>\<close>

definition settle ::
  "ok_entry list \<times> fail_entry list \<Rightarrow> recipient \<times> (error + info) \<Rightarrow> ok_entry list \<times> fail_entry list" where
  "settle acc p =
     (case acc of
        (ok, fail) \<Rightarrow>
          (case p of
             (target, Inr v) \<Rightarrow>
               (ok @ [\<lparr>ok_recipient = email target, ok_messageId = messageId v,
                       ok_accepted = accepted v\<rparr>], fail)
           | (target, Inl reason) \<Rightarrow>
               (ok, fail @ [\<lparr>fail_recipient = email target,
                              fail_error = (if message reason \<noteq> [] then message reason
                                            else error_toString reason)\<rparr>])))"

definition sendIndividual ::
  "'w transporter \<Rightarrow> string \<Rightarrow> body \<Rightarrow> 'w state \<Rightarrow> reply \<times> 'w state" where
  "sendIndividual t from b st =
     (case allSettled t
             (map (\<lambda>r. mail from (Some (fmt r)) None b (context_of b) (html b)) (recipients b)) st of
        (results, st1) \<Rightarrow>
          (case foldl settle ([], []) (zip (recipients b) results) of
             (ok, fail) \<Rightarrow> (\<lparr>code = 207, payload = IndividualBody ok fail\<rparr>, st1)))"

text \<open>The BCC branch; a rejected send is thrown to the outer \<open>catch\<close>.\<close>

definition sendBcc ::
  "'w transporter \<Rightarrow> string \<Rightarrow> body \<Rightarrow> 'w state \<Rightarrow> reply \<times> 'w state" where
  "sendBcc t from b st =
     (let bccList = join '', '' (map fmt (recipients b))
      in case await_sendMail t (mail from None (Some bccList) b (context_of b) (html b)) st of
           (Inr i, st1) \<Rightarrow>
             (\<lparr>code = 200, payload = BccBody (messageId i) (accepted i) (rejected i)\<rparr>, st1)
         | (Inl err, st1) \<Rightarrow>
             (\<lparr>code = 500, payload = ErrorBody ''EMAIL_SEND_FAILED'' (message err)\<rparr>, st1))"

text \<open>
  \<open>createSendHandler(transporterInstance, defaultFromEmail, defaultFromName)\<close>, applied
  to a request. A transporter that is \<open>null\<close> is \<open>None\<close>.
\<close>

definition createSendHandler ::
  "compiler \<Rightarrow> 'w transporter option \<Rightarrow> string option \<Rightarrow> string option \<Rightarrow>
   body \<Rightarrow> 'w state \<Rightarrow> reply \<times> 'w state" where
  "createSendHandler hbs_compile transporterInstance defaultFromEmail defaultFromName b st =
     (case transporterInstance of
        None \<Rightarrow>
          (\<lparr>code = 500,
            payload = ErrorBody ''CONFIGURATION_ERROR''
              ''This email channel is not configured on the server (missing ENV).''\<rparr>, st)
      | Some t \<Rightarrow>
          (let from = from_header (displayName (from' b) defaultFromName) defaultFromEmail
           in if \<not> truthy (template b) \<and> \<not> truthy (html b) then
                (\<lparr>code = 400,
                  payload = ErrorBody ''BAD_REQUEST'' ''Provide either 'template' or 'html'.''\<rparr>, st)
              else if individual_of b \<or> delaySeconds_of b > 0 then
                (case compile_html hbs_compile (html b) st of
                   (Inl err, st1) \<Rightarrow>
                     (\<lparr>code = 500, payload = ErrorBody ''EMAIL_SEND_FAILED'' (message err)\<rparr>, st1)
                 | (Inr htmlTemplate, st1) \<Rightarrow>
                     if delaySeconds_of b > 0 then sendDelayed t htmlTemplate from b (clock st) st1
                     else sendIndividual t from b st1)
              else sendBcc t from b st))"

subsection \<open>Transporters, schema and routes\<close>

text \<open>
  \<open>createTransporter(label, user, pass)\<close>; \<open>mk\<close> stands for \<open>nodemailer.createTransport\<close>
  with the Handlebars plugin attached.
\<close>

definition createTransporter ::
  "(string \<Rightarrow> string \<Rightarrow> 'w transporter) \<Rightarrow> string \<Rightarrow> string option \<Rightarrow> string option \<Rightarrow>
   'w transporter option" where
  "createTransporter mk label user pass =
     (case (user, pass) of
        (Some u, Some p) \<Rightarrow> if u = [] \<or> p = [] then None else Some (mk u p)
      | _ \<Rightarrow> None)"

text \<open>
  The schema \<open>SendEmailRequest\<close> on a body whose fields have the right JSON types:
  \<open>minItems: 1\<close>, the \<open>email\<close> format, the length of the subject, \<open>minimum: 0\<close> and the
  \<open>anyOf\<close> of \<open>template\<close> and \<open>html\<close>.
\<close>

definition SendEmailRequest :: "(string \<Rightarrow> bool) \<Rightarrow> body \<Rightarrow> bool" where
  "SendEmailRequest format_email b =
     (recipients b \<noteq> [] \<and> list_all (\<lambda>r. format_email (email r)) (recipients b) \<and>
      1 \<le> length (subject b) \<and> length (subject b) \<le> 255 \<and>
      (case delaySeconds b of None \<Rightarrow> True | Some d \<Rightarrow> 0 \<le> d) \<and>
      (template b \<noteq> None \<or> html b \<noteq> None))"

text \<open>
  A route with \<open>schema: { body: { $ref: "SendEmailRequest#" } }\<close>: the framework answers 400
  itself to a body that fails the schema, and runs the handler on the others.
\<close>

definition post_route ::
  "(string \<Rightarrow> bool) \<Rightarrow> compiler \<Rightarrow> 'w transporter option \<Rightarrow> string option \<Rightarrow> string option \<Rightarrow>
   body \<Rightarrow> 'w state \<Rightarrow> reply \<times> 'w state" where
  "post_route format_email hbs_compile transporterInstance defaultFromEmail defaultFromName b st =
     (if SendEmailRequest format_email b
      then createSendHandler hbs_compile transporterInstance defaultFromEmail defaultFromName b st
      else (\<lparr>code = 400, payload = ValidationFailure\<rparr>, st))"

text \<open>The variables read from \<open>process.env\<close>.\<close>

record env =
  SMTP_USER :: "string option"
  SMTP_PASS :: "string option"
  SMTP_USER_PARTNERSHIP :: "string option"
  SMTP_PASS_PARTNERSHIP :: "string option"
  SMTP_USER_MARKETING :: "string option"
  SMTP_PASS_MARKETING :: "string option"
  FROM_EMAIL :: "string option"
  FROM_NAME :: "string option"

text \<open>
  The routes \<open>/send-email\<close>, \<open>/send-email/partnership\<close> and \<open>/send-email/marketing\<close>.
\<close>

datatype account = General | Partnership | Marketing

fun label :: "account \<Rightarrow> string" where
  "label General = ''MAIN''"
| "label Partnership = ''PARTNERSHIP''"
| "label Marketing = ''MARKETING''"

fun smtp_user :: "env \<Rightarrow> account \<Rightarrow> string option" where
  "smtp_user e General = SMTP_USER e"
| "smtp_user e Partnership = SMTP_USER_PARTNERSHIP e"
| "smtp_user e Marketing = SMTP_USER_MARKETING e"

fun smtp_pass :: "env \<Rightarrow> account \<Rightarrow> string option" where
  "smtp_pass e General = SMTP_PASS e"
| "smtp_pass e Partnership = SMTP_PASS_PARTNERSHIP e"
| "smtp_pass e Marketing = SMTP_PASS_MARKETING e"

definition transporter_of ::
  "(string \<Rightarrow> string \<Rightarrow> 'w transporter) \<Rightarrow> env \<Rightarrow> account \<Rightarrow> 'w transporter option" where
  "transporter_of mk e a = createTransporter mk (label a) (smtp_user e a) (smtp_pass e a)"

fun sender_email :: "env \<Rightarrow> account \<Rightarrow> string option" where
  "sender_email e General = FROM_EMAIL e"
| "sender_email e Partnership = SMTP_USER_PARTNERSHIP e"
| "sender_email e Marketing = SMTP_USER_MARKETING e"

fun sender_name :: "env \<Rightarrow> account \<Rightarrow> string option" where
  "sender_name e General = FROM_NAME e"
| "sender_name e Partnership = Some ''Atlaz Academy''"
| "sender_name e Marketing = Some ''Atlaz Academy''"

definition endpoint ::
  "(string \<Rightarrow> bool) \<Rightarrow> compiler \<Rightarrow> (string \<Rightarrow> string \<Rightarrow> 'w transporter) \<Rightarrow> env \<Rightarrow> account \<Rightarrow>
   body \<Rightarrow> 'w state \<Rightarrow> reply \<times> 'w state" where
  "endpoint format_email hbs_compile mk e a =
     post_route format_email hbs_compile (transporter_of mk e a) (sender_email e a) (sender_name e a)"

subsection \<open>The template engine the code has\<close>

text \<open>
  \<open>hbs\<close> is what \<open>require("nodemailer-express-handlebars")\<close> gives (lines 16 to 18): the
  plugin factory, which \<open>createTransporter\<close> calls as \<open>hbs({...})\<close> (line 197). The factory
  has no property \<open>compile\<close>, so \<open>hbs.compile(html)\<close> at line 289 throws a \<open>TypeError\<close>
  whatever the string is. (The later version of the server requires \<open>handlebars\<close> itself
  for compiling raw HTML.)
\<close>

definition plugin_compile :: compiler where
  "plugin_compile s = Inl (Error ''TypeError'' ''hbs.compile is not a function'')"

section \<open>Reading a run\<close>

text \<open>
  What the theorems observe of a run: the events a handler call added to the trace, the
  messages it handed to the transport, the delays it took, and the time each event cost.
\<close>

definition new_events :: "'w state \<Rightarrow> 'w state \<Rightarrow> event list" where
  "new_events st st' = drop (length (trace st)) (trace st')"

fun sent :: "event list \<Rightarrow> message list" where
  "sent [] = []"
| "sent (Sent m took # es) = m # sent es"
| "sent (e # es) = sent es"

fun sleeps :: "event list \<Rightarrow> nat list" where
  "sleeps [] = []"
| "sleeps (Slept ms # es) = ms # sleeps es"
| "sleeps (e # es) = sleeps es"

fun tooks :: "event list \<Rightarrow> nat list" where
  "tooks [] = []"
| "tooks (Sent m took # es) = took # tooks es"
| "tooks (e # es) = tooks es"

fun wait :: "event \<Rightarrow> nat" where
  "wait (Sent m took) = took"
| "wait (Slept ms) = ms"
| "wait e = 0"

text \<open>The delays and the transport calls of a trace, in the order they were issued.\<close>

datatype step = Pause nat | Deliver message

fun steps :: "event list \<Rightarrow> step list" where
  "steps [] = []"
| "steps (Sent m took # es) = Deliver m # steps es"
| "steps (Slept ms # es) = Pause ms # steps es"
| "steps (e # es) = steps es"

text \<open>The \<open>ok\<close> and \<open>fail\<close> arrays of a reply body.\<close>

fun ok_list :: "payload \<Rightarrow> ok_entry list" where
  "ok_list (IndividualBody ok fail) = ok"
| "ok_list (DelayedBody n d ok fail) = ok"
| "ok_list p = []"

fun fail_list :: "payload \<Rightarrow> fail_entry list" where
  "fail_list (IndividualBody ok fail) = fail"
| "fail_list (DelayedBody n d ok fail) = fail"
| "fail_list p = []"

text \<open>
  The request has content for the handler: \<open>template\<close> or \<open>html\<close> is truthy, so the check
  \<open>!template && !html\<close> lets it through.
\<close>

definition has_content :: "body \<Rightarrow> bool" where
  "has_content b = (truthy (template b) \<or> truthy (html b))"

text \<open>The value of the handler's local \<open>from\<close>.\<close>

definition sender :: "string option \<Rightarrow> string option \<Rightarrow> body \<Rightarrow> string" where
  "sender defaultFromEmail defaultFromName b =
     from_header (displayName (from' b) defaultFromName) defaultFromEmail"

text \<open>
  \<open>hbs.compile(html)\<close> is called only for a truthy \<open>html\<close>; \<open>compiles\<close> says that the call, if
  made, returns; \<open>htmlTemplate_of\<close> is the value of \<open>htmlTemplate\<close> afterwards, and
  \<open>compile_events\<close> is what the step adds to the trace.
\<close>

definition compiles :: "compiler \<Rightarrow> body \<Rightarrow> bool" where
  "compiles hbs_compile b =
     (case html b of
        None \<Rightarrow> True
      | Some s \<Rightarrow> s = [] \<or> (case hbs_compile s of Inl e \<Rightarrow> False | Inr f \<Rightarrow> True))"

definition htmlTemplate_of :: "compiler \<Rightarrow> body \<Rightarrow> compiled option" where
  "htmlTemplate_of hbs_compile b =
     (case html b of
        None \<Rightarrow> None
      | Some s \<Rightarrow> if s = [] then None else (case hbs_compile s of Inl e \<Rightarrow> None | Inr f \<Rightarrow> Some f))"

definition compile_events :: "body \<Rightarrow> event list" where
  "compile_events b = (case html b of None \<Rightarrow> [] | Some s \<Rightarrow> if s = [] then [] else [Compiled s])"

text \<open>The compiled template, if there is one, renders for this recipient without throwing.\<close>

definition renders :: "compiled option \<Rightarrow> recipient \<Rightarrow> bool" where
  "renders htmlTemplate r =
     (case htmlTemplate of
        None \<Rightarrow> True
      | Some f \<Rightarrow> (case f (own_properties r) of Inl e \<Rightarrow> False | Inr s \<Rightarrow> True))"

text \<open>The message each branch hands to the transport.\<close>

definition delayed_message :: "compiled option \<Rightarrow> string \<Rightarrow> body \<Rightarrow> recipient \<Rightarrow> message" where
  "delayed_message htmlTemplate from b r =
     mail from (Some (fmt r)) None b
       (if truthy (template b) then context_of b ++ own_properties r else Map.empty)
       (case htmlTemplate of
          None \<Rightarrow> None
        | Some f \<Rightarrow> (case f (own_properties r) of Inl e \<Rightarrow> None | Inr s \<Rightarrow> Some s))"

definition individual_message :: "string \<Rightarrow> body \<Rightarrow> recipient \<Rightarrow> message" where
  "individual_message from b r = mail from (Some (fmt r)) None b (context_of b) (html b)"

definition bcc_message :: "string \<Rightarrow> body \<Rightarrow> message" where
  "bcc_message from b =
     mail from None (Some (join '', '' (map fmt (recipients b)))) b (context_of b) (html b)"

text \<open>
  The delayed mode's plan for the recipient at an index: the pause before every recipient
  but the first, then the delivery, which is left out only when rendering threw.
\<close>

definition delay_ms :: "body \<Rightarrow> nat" where
  "delay_ms b = nat (delaySeconds_of b * 1000)"

definition schedule :: "compiled option \<Rightarrow> string \<Rightarrow> body \<Rightarrow> nat \<times> recipient \<Rightarrow> step list" where
  "schedule htmlTemplate from b p =
     (if fst p > 0 then [Pause (timeout_of (delay_ms b))] else []) @
     (if renders htmlTemplate (snd p) then [Deliver (delayed_message htmlTemplate from b (snd p))]
      else [])"

text \<open>
  The addresses of the recipients whose flag is \<open>v\<close>, in list order; \<open>settled\<close> is the flag
  of a fulfilled call.
\<close>

definition chosen :: "bool \<Rightarrow> recipient list \<Rightarrow> bool list \<Rightarrow> string list" where
  "chosen v rs flags = map (email \<circ> fst) (filter (\<lambda>p. snd p = v) (zip rs flags))"

definition settled :: "(error + info) \<Rightarrow> bool" where
  "settled res = (case res of Inl e \<Rightarrow> False | Inr v \<Rightarrow> True)"

section \<open>The specification's rules\<close>

text \<open>
  The rule of the specification's \<open>selectMode(individualFlag, delaySeconds)\<close>, in its words:
  if \<open>delaySeconds > 0\<close> then \<open>individual_delayed\<close>, else if \<open>individualFlag\<close> then
  \<open>individual\<close>, else \<open>bcc\<close>.
\<close>

definition selectMode :: "bool \<Rightarrow> int \<Rightarrow> string" where
  "selectMode individualFlag delay =
     (if delay > 0 then ''individual_delayed''
      else if individualFlag then ''individual''
      else ''bcc'')"

text \<open>
  The specification's completion order of the concurrent mode: all calls start together, so
  a call that took less time settled earlier. The addresses of the recipients in that order.
\<close>

definition completion_order :: "recipient list \<Rightarrow> event list \<Rightarrow> string list" where
  "completion_order rs evs = map (email \<circ> fst) (sort_key snd (zip rs (tooks evs)))"

section \<open>Concrete runs\<close>

text \<open>
  A transport whose state counts its calls: the calls whose number is in \<open>failing\<close> are
  rejected, the first call takes 900 ms and every later one 100 ms. Three requests: one with
  raw HTML and the default flags, one with a named template in individual mode, and the
  example request of the schema \<open>SendEmailRequest\<close> (lines 127 to 138). A run is the handler
  of a configured account, with the template engine the code has, on the initial state.
\<close>

definition demo_transport :: "nat list \<Rightarrow> nat transporter" where
  "demo_transport failing m w =
     (if w \<in> set failing then Inl (Error ''Error'' ''Mailbox full'')
      else Inr \<lparr>messageId = ''<1@relay>'', accepted = [], rejected = []\<rparr>,
      if w = 0 then 900 else 100, Suc w)"

definition demo_body :: body where
  "demo_body =
     \<lparr>recipients = [\<lparr>email = ''a@x.io'', name = Some ''Ann''\<rparr>, \<lparr>email = ''b@x.io'', name = None\<rparr>],
      subject = ''Hi'', template = None, context' = None, html = Some ''<p>Hello</p>'',
      from' = None, individual = None, delaySeconds = None\<rparr>"

definition template_body :: body where
  "template_body =
     \<lparr>recipients = [\<lparr>email = ''a@x.io'', name = Some ''Ann''\<rparr>, \<lparr>email = ''b@x.io'', name = None\<rparr>],
      subject = ''Hi'', template = Some ''welcome'', context' = Some [''city'' \<mapsto> JStr ''X''],
      html = None, from' = None, individual = Some True, delaySeconds = None\<rparr>"

definition example_request :: body where
  "example_request =
     \<lparr>recipients = [\<lparr>email = ''user1@example.com'', name = None\<rparr>,
                    \<lparr>email = ''user2@example.com'', name = None\<rparr>],
      subject = ''Marketing Blast'', template = None, context' = None,
      html = Some ''<p>Promo content</p>'', from' = None,
      individual = Some True, delaySeconds = Some 3\<rparr>"

definition demo_state :: "nat state" where
  "demo_state = \<lparr>clock = 0, world = 0, trace = []\<rparr>"

definition demo_env :: env where
  "demo_env =
     \<lparr>SMTP_USER = Some ''main@acct.io'', SMTP_PASS = Some ''secret'',
      SMTP_USER_PARTNERSHIP = Some ''partners@acct.io'', SMTP_PASS_PARTNERSHIP = Some ''secret'',
      SMTP_USER_MARKETING = None, SMTP_PASS_MARKETING = None,
      FROM_EMAIL = Some ''main@acct.io'', FROM_NAME = None\<rparr>"

definition demo_format :: "string \<Rightarrow> bool" where
  "demo_format s = (CHR ''@'' \<in> set s)"

definition demo_run :: "nat list \<Rightarrow> body \<Rightarrow> reply \<times> nat state" where
  "demo_run failing b =
     createSendHandler plugin_compile (Some (demo_transport failing)) (Some ''main@acct.io'') None
       b demo_state"

section \<open>Lemmas about the branches\<close>

lemma steps_append [simp]: "steps (xs @ ys) = steps xs @ steps ys"
  by (induction xs rule: steps.induct) simp_all

lemma sent_append [simp]: "sent (xs @ ys) = sent xs @ sent ys"
  by (induction xs rule: sent.induct) simp_all

lemma sleeps_append [simp]: "sleeps (xs @ ys) = sleeps xs @ sleeps ys"
  by (induction xs rule: sleeps.induct) simp_all

lemma chosen_Cons [simp]:
  "chosen v (r # rs) (f # fs) = (if f = v then email r # chosen v rs fs else chosen v rs fs)"
  by (simp add: chosen_def)

lemma chosen_Nil [simp]: "chosen v [] fs = []"
  by (simp add: chosen_def)

lemma delayed_send_run:
  assumes "delayed_send t h from b r (ok, fail, st) = (ok', fail', st')"
  shows "\<exists>new f. trace st' = trace st @ new
           \<and> steps new = (if renders h r then [Deliver (delayed_message h from b r)] else [])
           \<and> sent new = (if renders h r then [delayed_message h from b r] else [])
           \<and> sleeps new = []
           \<and> clock st' = clock st + sum_list (map wait new)
           \<and> map ok_recipient ok' = map ok_recipient ok @ chosen True [r] [f]
           \<and> map fail_recipient fail' = map fail_recipient fail @ chosen False [r] [f]"
  using assms
  by (cases h; cases "t (delayed_message h from b r) (world st)")
     (auto simp: delayed_send_def render_for_def await_sendMail_def renders_def delayed_message_def Let_def
           split: sum.splits prod.splits if_splits)

lemma delayed_loop_run:
  "delayed_loop t h from b i rs (ok, fail, st) = (ok', fail', st') \<Longrightarrow>
   \<exists>new flags. trace st' = trace st @ new
     \<and> steps new = concat (map (schedule h from b) (enumerate i rs))
     \<and> sent new = map (delayed_message h from b) (filter (renders h) rs)
     \<and> sleeps new = replicate (if i > 0 then length rs else length rs - 1) (timeout_of (delay_ms b))
     \<and> clock st' = clock st + sum_list (map wait new)
     \<and> length flags = length rs
     \<and> map ok_recipient ok' = map ok_recipient ok @ chosen True rs flags
     \<and> map fail_recipient fail' = map fail_recipient fail @ chosen False rs flags"
proof (induction rs arbitrary: i ok fail st)
  case Nil
  then show ?case by simp
next
  case (Cons r rs)
  define pre where "pre = (if i > 0 then [Slept (timeout_of (delay_ms b))] else [])"
  define st0 where "st0 = (if i > 0 then sleep (delay_ms b) st else st)"
  have st0: "trace st0 = trace st @ pre" "clock st0 = clock st + sum_list (map wait pre)"
    by (simp_all add: st0_def pre_def sleep_def)
  obtain ok1 fail1 st1 where step: "delayed_send t h from b r (ok, fail, st0) = (ok1, fail1, st1)"
    by (cases "delayed_send t h from b r (ok, fail, st0)") auto
  with Cons.prems have rest: "delayed_loop t h from b (Suc i) rs (ok1, fail1, st1) = (ok', fail', st')"
    unfolding st0_def delay_ms_def by simp
  from delayed_send_run [OF step] obtain new1 f where one:
    "trace st1 = trace st0 @ new1"
    "steps new1 = (if renders h r then [Deliver (delayed_message h from b r)] else [])"
    "sent new1 = (if renders h r then [delayed_message h from b r] else [])"
    "sleeps new1 = []"
    "clock st1 = clock st0 + sum_list (map wait new1)"
    "map ok_recipient ok1 = map ok_recipient ok @ chosen True [r] [f]"
    "map fail_recipient fail1 = map fail_recipient fail @ chosen False [r] [f]"
    by blast
  from Cons.IH [OF rest] obtain new2 flags where more:
    "trace st' = trace st1 @ new2"
    "steps new2 = concat (map (schedule h from b) (enumerate (Suc i) rs))"
    "sent new2 = map (delayed_message h from b) (filter (renders h) rs)"
    "sleeps new2 = replicate (length rs) (timeout_of (delay_ms b))"
    "clock st' = clock st1 + sum_list (map wait new2)"
    "length flags = length rs"
    "map ok_recipient ok' = map ok_recipient ok1 @ chosen True rs flags"
    "map fail_recipient fail' = map fail_recipient fail1 @ chosen False rs flags"
    by auto
  have "trace st' = trace st @ (pre @ new1 @ new2)"
    by (simp add: more(1) one(1) st0(1))
  moreover have "steps (pre @ new1 @ new2) = concat (map (schedule h from b) (enumerate i (r # rs)))"
    by (simp add: more(2) one(2) schedule_def pre_def)
  moreover have "sent (pre @ new1 @ new2) = map (delayed_message h from b) (filter (renders h) (r # rs))"
    by (simp add: more(3) one(3) pre_def)
  moreover have "sleeps (pre @ new1 @ new2) =
      replicate (if i > 0 then length (r # rs) else length (r # rs) - 1) (timeout_of (delay_ms b))"
    by (simp add: more(4) one(4) pre_def)
  moreover have "clock st' = clock st + sum_list (map wait (pre @ new1 @ new2))"
    by (simp add: more(5) one(5) st0(2))
  moreover have "length (f # flags) = length (r # rs)"
    by (simp add: more(6))
  moreover have "map ok_recipient ok' = map ok_recipient ok @ chosen True (r # rs) (f # flags)"
    using more(7) one(6) by simp
  moreover have "map fail_recipient fail' = map fail_recipient fail @ chosen False (r # rs) (f # flags)"
    using more(8) one(7) by simp
  ultimately show ?case by blast
qed

lemma start_all_length: "start_all t ms w = (results, w') \<Longrightarrow> length results = length ms"
  by (induction ms arbitrary: w results) (auto split: prod.splits)

lemma sent_map2:
  "length ms = length ks \<Longrightarrow> sent (map2 Sent ms ks) = ms \<and> sleeps (map2 Sent ms ks) = []
     \<and> steps (map2 Sent ms ks) = map Deliver ms \<and> map wait (map2 Sent ms ks) = ks"
  by (induction ms ks rule: list_induct2) simp_all

lemma allSettled_run:
  assumes "allSettled t ms st = (results, st')"
  shows "\<exists>ks. length ks = length ms \<and> length results = length ms
           \<and> trace st' = trace st @ map2 Sent ms ks
           \<and> clock st' = clock st + fold max ks 0"
proof -
  obtain rs w where sa: "start_all t ms (world st) = (rs, w)"
    by (cases "start_all t ms (world st)") auto
  have len: "length rs = length ms"
    using sa by (rule start_all_length)
  from assms sa have "results = map fst rs"
    and "trace st' = trace st @ map2 Sent ms (map snd rs)"
    and "clock st' = clock st + fold max (map snd rs) 0"
    by (auto simp: allSettled_def)
  with len show ?thesis
    by (intro exI [of _ "map snd rs"]) simp
qed

lemma settle_run:
  "length rs = length results \<Longrightarrow> foldl settle (ok, fail) (zip rs results) = (ok', fail') \<Longrightarrow>
   map ok_recipient ok' = map ok_recipient ok @ chosen True rs (map settled results) \<and>
   map fail_recipient fail' = map fail_recipient fail @ chosen False rs (map settled results)"
proof (induction rs results arbitrary: ok fail rule: list_induct2)
  case Nil
  then show ?case by simp
next
  case (Cons r rs res results)
  show ?case
  proof (cases res)
    case (Inl e)
    with Cons.prems Cons.IH [of ok "fail @ [\<lparr>fail_recipient = email r,
        fail_error = (if message e \<noteq> [] then message e else error_toString e)\<rparr>]"]
    show ?thesis by (simp add: settle_def settled_def)
  next
    case (Inr v)
    with Cons.prems Cons.IH [of "ok @ [\<lparr>ok_recipient = email r, ok_messageId = messageId v,
        ok_accepted = accepted v\<rparr>]" fail]
    show ?thesis by (simp add: settle_def settled_def)
  qed
qed

lemma sendIndividual_run:
  assumes "sendIndividual t from b st = (rep, st')"
  shows "\<exists>ks flags ok fail. length ks = length (recipients b)
           \<and> trace st' = trace st @ map2 Sent (map (individual_message from b) (recipients b)) ks
           \<and> clock st' = clock st + fold max ks 0
           \<and> rep = \<lparr>code = 207, payload = IndividualBody ok fail\<rparr>
           \<and> length flags = length (recipients b)
           \<and> map ok_recipient ok = chosen True (recipients b) flags
           \<and> map fail_recipient fail = chosen False (recipients b) flags"
proof -
  let ?ms = "map (individual_message from b) (recipients b)"
  obtain results st1 where a: "allSettled t ?ms st = (results, st1)"
    by (cases "allSettled t ?ms st") auto
  obtain ok fail where f: "foldl settle ([], []) (zip (recipients b) results) = (ok, fail)"
    by (cases "foldl settle ([], []) (zip (recipients b) results)") auto
  from allSettled_run [OF a] obtain ks where ks:
    "length ks = length ?ms" "length results = length ?ms"
    "trace st1 = trace st @ map2 Sent ?ms ks" "clock st1 = clock st + fold max ks 0"
    by auto
  from ks(2) have len: "length (recipients b) = length results" by simp
  from settle_run [OF len f] have parts:
    "map ok_recipient ok = chosen True (recipients b) (map settled results)"
    "map fail_recipient fail = chosen False (recipients b) (map settled results)"
    by simp_all
  from assms a f have "rep = \<lparr>code = 207, payload = IndividualBody ok fail\<rparr>" "st' = st1"
    by (simp_all add: sendIndividual_def individual_message_def [abs_def])
  moreover have "length ks = length (recipients b)" "length (map settled results) = length (recipients b)"
    using ks(1,2) by simp_all
  ultimately show ?thesis
    using ks(3,4) parts by blast
qed

lemma sendBcc_run:
  assumes "sendBcc t from b st = (rep, st')"
  shows "\<exists>k. trace st' = trace st @ [Sent (bcc_message from b) k] \<and> clock st' = clock st + k
           \<and> rep = (case fst (t (bcc_message from b) (world st)) of
                       Inr i \<Rightarrow> \<lparr>code = 200, payload = BccBody (messageId i) (accepted i) (rejected i)\<rparr>
                     | Inl err \<Rightarrow> \<lparr>code = 500, payload = ErrorBody ''EMAIL_SEND_FAILED'' (message err)\<rparr>)"
  using assms
  by (cases "t (bcc_message from b) (world st)")
     (auto simp: sendBcc_def bcc_message_def await_sendMail_def Let_def split: sum.splits)

lemma sendDelayed_run:
  assumes "sendDelayed t h from b startTime st = (rep, st')"
  shows "\<exists>new flags ok fail. trace st' = trace st @ new
     \<and> steps new = concat (map (schedule h from b) (enumerate 0 (recipients b)))
     \<and> sent new = map (delayed_message h from b) (filter (renders h) (recipients b))
     \<and> sleeps new = replicate (length (recipients b) - 1) (timeout_of (delay_ms b))
     \<and> clock st' = clock st + sum_list (map wait new)
     \<and> rep = \<lparr>code = 207, payload =
           DelayedBody (length ok) (of_nat (clock st' - startTime) / 1000) ok fail\<rparr>
     \<and> length flags = length (recipients b)
     \<and> map ok_recipient ok = chosen True (recipients b) flags
     \<and> map fail_recipient fail = chosen False (recipients b) flags"
proof -
  obtain ok fail st1 where l: "delayed_loop t h from b 0 (recipients b) ([], [], st) = (ok, fail, st1)"
    by (cases "delayed_loop t h from b 0 (recipients b) ([], [], st)") auto
  with assms have r: "rep = \<lparr>code = 207, payload =
      DelayedBody (length ok) (of_nat (clock st1 - startTime) / 1000) ok fail\<rparr>" "st' = st1"
    by (auto simp: sendDelayed_def)
  from delayed_loop_run [OF l] obtain new flags where
    "trace st1 = trace st @ new"
    "steps new = concat (map (schedule h from b) (enumerate 0 (recipients b)))"
    "sent new = map (delayed_message h from b) (filter (renders h) (recipients b))"
    "sleeps new = replicate (length (recipients b) - 1) (timeout_of (delay_ms b))"
    "clock st1 = clock st + sum_list (map wait new)"
    "length flags = length (recipients b)"
    "map ok_recipient ok = chosen True (recipients b) flags"
    "map fail_recipient fail = chosen False (recipients b) flags"
    by auto
  with r show ?thesis
    by blast
qed

lemma new_events_eq: "trace st' = trace st @ new \<Longrightarrow> new_events st st' = new"
  by (simp add: new_events_def)

lemma new_events_same [simp]: "new_events st st = []"
  by (simp add: new_events_def)

lemma compile_html_run:
  assumes "compile_html c (html b) st = (res, st1)"
  shows "trace st1 = trace st @ compile_events b \<and> clock st1 = clock st \<and> world st1 = world st
           \<and> (if compiles c b then res = Inr (htmlTemplate_of c b) else (\<exists>e. res = Inl e))"
  using assms
  by (auto simp: compile_html_def compile_events_def compiles_def htmlTemplate_of_def
           split: option.splits if_splits sum.splits)

lemma compile_events_obs [simp]:
  "sent (compile_events b) = []" "sleeps (compile_events b) = []" "steps (compile_events b) = []"
  "sum_list (map wait (compile_events b)) = 0"
  by (auto simp: compile_events_def split: option.splits)

lemma handler_unconfigured:
  "createSendHandler c None E N b st =
     (\<lparr>code = 500, payload = ErrorBody ''CONFIGURATION_ERROR''
         ''This email channel is not configured on the server (missing ENV).''\<rparr>, st)"
  by (simp add: createSendHandler_def)

lemma handler_no_content:
  "\<not> has_content b \<Longrightarrow>
   createSendHandler c (Some t) E N b st =
     (\<lparr>code = 400, payload = ErrorBody ''BAD_REQUEST'' ''Provide either 'template' or 'html'.''\<rparr>, st)"
  by (simp add: createSendHandler_def has_content_def Let_def)

lemma handler_run:
  assumes "createSendHandler c (Some t) E N b st = (rep, st')" and "has_content b"
  shows "if individual_of b \<or> delaySeconds_of b > 0 then
           (\<exists>st1. trace st1 = trace st @ compile_events b \<and> clock st1 = clock st \<and> world st1 = world st \<and>
             (if compiles c b then
                (if delaySeconds_of b > 0
                 then sendDelayed t (htmlTemplate_of c b) (sender E N b) b (clock st) st1 = (rep, st')
                 else sendIndividual t (sender E N b) b st1 = (rep, st'))
              else (\<exists>e. rep = \<lparr>code = 500, payload = ErrorBody ''EMAIL_SEND_FAILED'' e\<rparr>) \<and> st' = st1))
         else sendBcc t (sender E N b) b st = (rep, st')"
proof (cases "individual_of b \<or> delaySeconds_of b > 0")
  case False
  with assms show ?thesis
    by (auto simp: createSendHandler_def has_content_def Let_def sender_def)
next
  case True
  obtain res st1 where c: "compile_html c (html b) st = (res, st1)"
    by (cases "compile_html c (html b) st") auto
  note run = compile_html_run [OF c]
  show ?thesis
  proof (cases "compiles c b")
    case yes: True
    with run have "res = Inr (htmlTemplate_of c b)" by simp
    with assms True c have
      "(if delaySeconds_of b > 0
        then sendDelayed t (htmlTemplate_of c b) (sender E N b) b (clock st) st1
        else sendIndividual t (sender E N b) b st1) = (rep, st')"
      by (auto simp: createSendHandler_def has_content_def Let_def sender_def)
    with True yes run show ?thesis
      by (auto intro!: exI [of _ st1] split: if_splits)
  next
    case no: False
    with run obtain e where "res = Inl e" by auto
    with assms True c have "rep = \<lparr>code = 500, payload = ErrorBody ''EMAIL_SEND_FAILED'' (message e)\<rparr>"
      and "st' = st1"
      by (auto simp: createSendHandler_def has_content_def Let_def)
    with True no run show ?thesis
      by (auto intro!: exI [of _ st1])
  qed
qed

lemma mail_simps [simp]:
  "m_from (mail from to bcc b ctx h) = from"
  "m_to (mail from to bcc b ctx h) = to"
  "m_bcc (mail from to bcc b ctx h) = bcc"
  by (simp_all add: mail_def)

lemma handler_sent:
  assumes "createSendHandler c (Some t) E N b st = (rep, st')" and "has_content b"
  shows "\<exists>new. trace st' = trace st @ new \<and>
           sent new =
             (if individual_of b \<or> delaySeconds_of b > 0 then
                (if compiles c b then
                   (if delaySeconds_of b > 0
                    then map (delayed_message (htmlTemplate_of c b) (sender E N b) b)
                           (filter (renders (htmlTemplate_of c b)) (recipients b))
                    else map (individual_message (sender E N b) b) (recipients b))
                 else [])
              else [bcc_message (sender E N b) b])"
proof (cases "individual_of b \<or> delaySeconds_of b > 0")
  case False
  with handler_run [OF assms] have "sendBcc t (sender E N b) b st = (rep, st')"
    by simp
  from sendBcc_run [OF this] False show ?thesis
    by auto
next
  case True
  with handler_run [OF assms] obtain st1 where st1:
    "trace st1 = trace st @ compile_events b"
    "if compiles c b then
       (if delaySeconds_of b > 0
        then sendDelayed t (htmlTemplate_of c b) (sender E N b) b (clock st) st1 = (rep, st')
        else sendIndividual t (sender E N b) b st1 = (rep, st'))
     else (\<exists>e. rep = \<lparr>code = 500, payload = ErrorBody ''EMAIL_SEND_FAILED'' e\<rparr>) \<and> st' = st1"
    by auto
  show ?thesis
  proof (cases "compiles c b")
    case no: False
    with st1 True show ?thesis
      by (intro exI [of _ "compile_events b"]) simp
  next
    case yes: True
    show ?thesis
    proof (cases "delaySeconds_of b > 0")
      case d: True
      with st1(2) yes have "sendDelayed t (htmlTemplate_of c b) (sender E N b) b (clock st) st1 = (rep, st')"
        by simp
      from sendDelayed_run [OF this] obtain new where
        "trace st' = trace st1 @ new"
        "sent new = map (delayed_message (htmlTemplate_of c b) (sender E N b) b)
                      (filter (renders (htmlTemplate_of c b)) (recipients b))"
        by auto
      with st1(1) True yes d show ?thesis
        by (intro exI [of _ "compile_events b @ new"]) simp
    next
      case d: False
      with st1(2) yes have "sendIndividual t (sender E N b) b st1 = (rep, st')"
        by simp
      from sendIndividual_run [OF this] obtain ks where
        "length ks = length (recipients b)"
        "trace st' = trace st1 @ map2 Sent (map (individual_message (sender E N b) b) (recipients b)) ks"
        by auto
      with st1(1) True yes d show ?thesis
        by (intro exI [of _ "compile_events b @
              map2 Sent (map (individual_message (sender E N b) b) (recipients b)) ks"])
           (simp add: sent_map2)
    qed
  qed
qed

lemma handler_sent_from:
  assumes "createSendHandler c tr E N b st = (rep, st')"
  shows "\<exists>new. trace st' = trace st @ new \<and> (\<forall>m \<in> set (sent new). m_from m = sender E N b)"
proof (cases tr)
  case None
  with assms show ?thesis by (simp add: handler_unconfigured)
next
  case (Some t)
  show ?thesis
  proof (cases "has_content b")
    case False
    with assms Some show ?thesis by (simp add: handler_no_content)
  next
    case True
    from handler_sent [OF assms [unfolded Some] True] show ?thesis
      by (auto simp: delayed_message_def individual_message_def bcc_message_def split: if_splits)
  qed
qed


lemma mode_sendBcc:
  assumes "sendBcc t from b st = (rep, st')"
  shows "mode (payload rep) = None \<or> mode (payload rep) = Some ''bcc''"
  using sendBcc_run [OF assms] by (auto split: sum.splits)

lemma mode_sendIndividual:
  assumes "sendIndividual t from b st = (rep, st')"
  shows "mode (payload rep) = Some ''individual''"
  using sendIndividual_run [OF assms] by auto

lemma mode_sendDelayed:
  assumes "sendDelayed t h from b s st = (rep, st')"
  shows "mode (payload rep) = Some ''individual_delayed''"
  using sendDelayed_run [OF assms] by auto

lemma handler_mode:
  assumes "createSendHandler c tr E N b st = (rep, st')"
  shows "mode (payload rep) = None \<or> mode (payload rep) = Some (selectMode (individual_of b) (delaySeconds_of b))"
    and "tr \<noteq> None \<Longrightarrow> has_content b \<Longrightarrow> compiles c b \<Longrightarrow> individual_of b \<or> delaySeconds_of b > 0 \<Longrightarrow>
         mode (payload rep) = Some (selectMode (individual_of b) (delaySeconds_of b))"
proof -
  have "(mode (payload rep) = None \<or> mode (payload rep) = Some (selectMode (individual_of b) (delaySeconds_of b)))
      \<and> (tr \<noteq> None \<and> has_content b \<and> compiles c b \<and> (individual_of b \<or> delaySeconds_of b > 0) \<longrightarrow>
         mode (payload rep) = Some (selectMode (individual_of b) (delaySeconds_of b)))"
  proof (cases tr)
    case None
    with assms show ?thesis by (auto simp: handler_unconfigured)
  next
    case (Some t)
    show ?thesis
    proof (cases "has_content b")
      case False
      with assms Some show ?thesis by (auto simp: handler_no_content)
    next
      case True
      note run = handler_run [OF assms [unfolded Some] True]
      show ?thesis
      proof (cases "individual_of b \<or> delaySeconds_of b > 0")
        case False
        with run have "sendBcc t (sender E N b) b st = (rep, st')" by simp
        from mode_sendBcc [OF this] False show ?thesis
          by (simp add: selectMode_def)
      next
        case branch: True
        with run obtain st1 where st1:
          "if compiles c b then
             (if delaySeconds_of b > 0
              then sendDelayed t (htmlTemplate_of c b) (sender E N b) b (clock st) st1 = (rep, st')
              else sendIndividual t (sender E N b) b st1 = (rep, st'))
           else (\<exists>e. rep = \<lparr>code = 500, payload = ErrorBody ''EMAIL_SEND_FAILED'' e\<rparr>) \<and> st' = st1"
          by auto
        show ?thesis
        proof (cases "compiles c b")
          case False
          with st1 show ?thesis by auto
        next
          case yes: True
          show ?thesis
          proof (cases "delaySeconds_of b > 0")
            case True
            with st1 yes have "sendDelayed t (htmlTemplate_of c b) (sender E N b) b (clock st) st1 = (rep, st')"
              by simp
            from mode_sendDelayed [OF this] True show ?thesis
              by (simp add: selectMode_def)
          next
            case False
            with st1 yes have "sendIndividual t (sender E N b) b st1 = (rep, st')"
              by simp
            from mode_sendIndividual [OF this] False branch show ?thesis
              by (simp add: selectMode_def)
          qed
        qed
      qed
    qed
  qed
  then show "mode (payload rep) = None \<or> mode (payload rep) = Some (selectMode (individual_of b) (delaySeconds_of b))"
    and "tr \<noteq> None \<Longrightarrow> has_content b \<Longrightarrow> compiles c b \<Longrightarrow> individual_of b \<or> delaySeconds_of b > 0 \<Longrightarrow>
         mode (payload rep) = Some (selectMode (individual_of b) (delaySeconds_of b))"
    by blast+
qed


lemma chosen_mset:
  "length rs = length flags \<Longrightarrow>
   mset (chosen True rs flags) + mset (chosen False rs flags) = mset (map email rs)"
  by (induction rs flags rule: list_induct2) simp_all

lemma sleeps_le_wait: "sum_list (sleeps evs) \<le> sum_list (map wait evs)"
  by (induction evs rule: sleeps.induct) simp_all

lemma handler_individual:
  assumes "createSendHandler c (Some t) E N b st = (rep, st')" and "has_content b"
    and "individual_of b \<or> delaySeconds_of b > 0" and "compiles c b" and "\<not> delaySeconds_of b > 0"
  shows "\<exists>st1. trace st1 = trace st @ compile_events b \<and> clock st1 = clock st \<and>
           sendIndividual t (sender E N b) b st1 = (rep, st')"
  using handler_run [OF assms(1,2)] assms(3-5) by auto

lemma handler_delayed:
  assumes "createSendHandler c (Some t) E N b st = (rep, st')" and "has_content b"
    and "compiles c b" and "delaySeconds_of b > 0"
  shows "\<exists>st1. trace st1 = trace st @ compile_events b \<and> clock st1 = clock st \<and>
           sendDelayed t (htmlTemplate_of c b) (sender E N b) b (clock st) st1 = (rep, st')"
  using handler_run [OF assms(1,2)] assms(3,4) by auto

lemma handler_outcomes:
  assumes "createSendHandler c (Some t) E N b st = (rep, st')" and "has_content b"
    and "individual_of b \<or> delaySeconds_of b > 0" and "compiles c b"
  shows "\<exists>flags. length flags = length (recipients b)
           \<and> map ok_recipient (ok_list (payload rep)) = chosen True (recipients b) flags
           \<and> map fail_recipient (fail_list (payload rep)) = chosen False (recipients b) flags"
proof (cases "delaySeconds_of b > 0")
  case True
  from handler_delayed [OF assms(1,2,4) True] obtain st1 where
    "sendDelayed t (htmlTemplate_of c b) (sender E N b) b (clock st) st1 = (rep, st')"
    by auto
  from sendDelayed_run [OF this] show ?thesis
    by auto
next
  case False
  from handler_individual [OF assms False] obtain st1 where
    "sendIndividual t (sender E N b) b st1 = (rep, st')"
    by auto
  from sendIndividual_run [OF this] show ?thesis
    by auto
qed

lemma handler_mode_inv:
  assumes "createSendHandler c tr E N b st = (rep, st')"
    and "mode (payload rep) = Some ''individual'' \<or> mode (payload rep) = Some ''individual_delayed''"
  shows "\<exists>t. tr = Some t \<and> has_content b \<and> (individual_of b \<or> delaySeconds_of b > 0) \<and> compiles c b"
proof (cases tr)
  case None
  with assms show ?thesis by (auto simp: handler_unconfigured)
next
  case (Some t)
  show ?thesis
  proof (cases "has_content b")
    case False
    with assms Some show ?thesis by (auto simp: handler_no_content)
  next
    case True
    note run = handler_run [OF assms(1) [unfolded Some] True]
    show ?thesis
    proof (cases "individual_of b \<or> delaySeconds_of b > 0")
      case False
      with run have "sendBcc t (sender E N b) b st = (rep, st')" by simp
      from mode_sendBcc [OF this] assms(2) show ?thesis
        by auto
    next
      case branch: True
      show ?thesis
      proof (cases "compiles c b")
        case False
        with run branch assms(2) show ?thesis by auto
      next
        case True
        with branch Some \<open>has_content b\<close> show ?thesis by simp
      qed
    qed
  qed
qed

subsection \<open>The engine of the code\<close>


lemma no_html:
  assumes "\<not> truthy (html b)"
  shows "compiles c b" and "htmlTemplate_of c b = None" and "compile_events b = []"
  using assms
  by (simp_all add: compiles_def htmlTemplate_of_def compile_events_def truthy_def split: option.splits)

lemma plugin_throws:
  assumes "truthy (html b)" and "individual_of b \<or> delaySeconds_of b > 0"
  shows "createSendHandler plugin_compile (Some t) E N b st =
           (\<lparr>code = 500, payload = ErrorBody ''EMAIL_SEND_FAILED'' ''hbs.compile is not a function''\<rparr>,
            st\<lparr>trace := trace st @ compile_events b\<rparr>)"
  using assms
  by (auto simp: createSendHandler_def compile_html_def plugin_compile_def compile_events_def
      truthy_def Let_def split: option.splits)

subsection \<open>Facts about the concrete runs\<close>

lemma demo_run_eq:
  "createSendHandler plugin_compile (Some (demo_transport failing)) (Some ''main@acct.io'') None b
     demo_state = (fst (demo_run failing b), snd (demo_run failing b))"
  by (simp add: demo_run_def)

lemma demo_facts:
  "has_content demo_body" "has_content template_body" "has_content example_request"
  "compiles c template_body" "truthy (template template_body)" "\<not> truthy (html template_body)"
  "truthy (html example_request)" "truthy (html demo_body)"
  "htmlTemplate_of c template_body = None"
  "recipients demo_body = [\<lparr>email = ''a@x.io'', name = Some ''Ann''\<rparr>, \<lparr>email = ''b@x.io'', name = None\<rparr>]"
  "recipients template_body = recipients demo_body"
  by (simp_all add: has_content_def truthy_def demo_body_def compiles_def template_body_def
      example_request_def htmlTemplate_of_def)

lemma demo_update_facts [simp]:
  "has_content (b\<lparr>individual := i\<rparr>) = has_content b"
  "has_content (b\<lparr>delaySeconds := d\<rparr>) = has_content b"
  "has_content (b\<lparr>from' := f\<rparr>) = has_content b"
  "compiles c (b\<lparr>individual := i\<rparr>) = compiles c b"
  "compiles c (b\<lparr>delaySeconds := d\<rparr>) = compiles c b"
  "compiles c (b\<lparr>from' := f\<rparr>) = compiles c b"
  "individual_of (b\<lparr>individual := Some v\<rparr>) = v"
  "delaySeconds_of (b\<lparr>delaySeconds := Some k\<rparr>) = k"
  "delaySeconds_of (b\<lparr>individual := i\<rparr>) = delaySeconds_of b"
  "individual_of (b\<lparr>delaySeconds := d\<rparr>) = individual_of b"
  "individual_of (b\<lparr>from' := f\<rparr>) = individual_of b"
  "delaySeconds_of (b\<lparr>from' := f\<rparr>) = delaySeconds_of b"
  by (simp_all add: has_content_def compiles_def individual_of_def delaySeconds_of_def)

lemma demo_flags [simp]:
  "individual_of demo_body = False" "delaySeconds_of demo_body = 0"
  "individual_of template_body = True" "delaySeconds_of template_body = 0"
  "individual_of example_request = True" "delaySeconds_of example_request = 3"
  by (simp_all add: individual_of_def delaySeconds_of_def demo_body_def template_body_def
      example_request_def)

lemma demo_requests_pass_the_schema:
  "SendEmailRequest demo_format demo_body" "SendEmailRequest demo_format template_body"
  "SendEmailRequest demo_format example_request"
  "SendEmailRequest demo_format (example_request\<lparr>delaySeconds := Some 0\<rparr>)"
  "SendEmailRequest demo_format (template_body\<lparr>delaySeconds := Some 2\<rparr>)"
  "SendEmailRequest demo_format (template_body\<lparr>delaySeconds := Some 2147484\<rparr>)"
  "SendEmailRequest demo_format (template_body\<lparr>individual := Some False, from' := f\<rparr>)"
  by (simp_all add: SendEmailRequest_def demo_format_def demo_body_def template_body_def
      example_request_def)

lemma bcc_sent:
  assumes "createSendHandler c (Some t) E N b st = (rep, st')" and "has_content b"
    and "\<not> individual_of b" and "delaySeconds_of b = 0"
  shows "sent (new_events st st') = [bcc_message (sender E N b) b]"
  using handler_sent [OF assms(1,2)] assms(3,4) by (auto simp: new_events_eq)

subsection \<open>The modes when the compile step returns\<close>


lemma individual_run:
  assumes "createSendHandler c (Some t) E N b st = (rep, st')" and "has_content b"
    and "individual_of b" and "delaySeconds_of b = 0" and "compiles c b"
  shows "sent (new_events st st') =
           map (\<lambda>r. mail (sender E N b) (Some (fmt r)) None b (context_of b) (html b)) (recipients b)
       \<and> length (sent (new_events st st')) = length (recipients b)
       \<and> mset (map ok_recipient (ok_list (payload rep))) + mset (map fail_recipient (fail_list (payload rep))) =
           mset (map email (recipients b))
       \<and> length (ok_list (payload rep)) + length (fail_list (payload rep)) = length (recipients b)"
proof -
  from assms(3) have branch: "individual_of b \<or> delaySeconds_of b > 0" by simp
  from handler_sent [OF assms(1,2)] assms(3,4,5) obtain new where
    "trace st' = trace st @ new" "sent new = map (individual_message (sender E N b) b) (recipients b)"
    by auto
  then have s: "sent (new_events st st') =
      map (\<lambda>r. mail (sender E N b) (Some (fmt r)) None b (context_of b) (html b)) (recipients b)"
    by (simp add: new_events_eq individual_message_def [abs_def])
  from handler_outcomes [OF assms(1,2) branch assms(5)] obtain flags where f0:
    "length flags = length (recipients b)"
    and f: "map ok_recipient (ok_list (payload rep)) = chosen True (recipients b) flags"
    "map fail_recipient (fail_list (payload rep)) = chosen False (recipients b) flags"
    by blast
  have m: "mset (map ok_recipient (ok_list (payload rep))) + mset (map fail_recipient (fail_list (payload rep))) =
      mset (map email (recipients b))"
    unfolding f by (rule chosen_mset [OF f0 [symmetric]])
  from arg_cong [OF m, of size] have "length (ok_list (payload rep)) + length (fail_list (payload rep)) =
      length (recipients b)"
    by simp
  with s m show ?thesis by simp
qed

lemma delayed_run:
  assumes "createSendHandler c (Some t) E N b st = (rep, st')" and "has_content b"
    and "delaySeconds_of b > 0" and "compiles c b" and "delaySeconds_of b * 1000 \<le> 2147483647"
  shows "steps (new_events st st') =
           concat (map (schedule (htmlTemplate_of c b) (sender E N b) b) (enumerate 0 (recipients b)))
       \<and> map m_to (sent (new_events st st')) =
           map (\<lambda>r. Some (fmt r)) (filter (renders (htmlTemplate_of c b)) (recipients b))
       \<and> sleeps (new_events st st') =
           replicate (length (recipients b) - 1) (nat (delaySeconds_of b * 1000))
       \<and> clock st' = clock st + sum_list (map wait (new_events st st'))
       \<and> (\<exists>ok fail. rep = \<lparr>code = 207, payload =
             DelayedBody (length ok) (of_nat (clock st' - clock st) / 1000) ok fail\<rparr>)
       \<and> of_nat (length (recipients b) - 1) * of_int (delaySeconds_of b)
           \<le> (of_nat (clock st' - clock st) / 1000 :: rat)"
proof -
  from handler_delayed [OF assms(1,2,4,3)] obtain st1 where st1:
    "trace st1 = trace st @ compile_events b" "clock st1 = clock st"
    "sendDelayed t (htmlTemplate_of c b) (sender E N b) b (clock st) st1 = (rep, st')"
    by auto
  from sendDelayed_run [OF st1(3)] obtain new ok fail where run:
    "trace st' = trace st1 @ new"
    "steps new = concat (map (schedule (htmlTemplate_of c b) (sender E N b) b) (enumerate 0 (recipients b)))"
    "sent new = map (delayed_message (htmlTemplate_of c b) (sender E N b) b)
       (filter (renders (htmlTemplate_of c b)) (recipients b))"
    "sleeps new = replicate (length (recipients b) - 1) (timeout_of (delay_ms b))"
    "clock st' = clock st1 + sum_list (map wait new)"
    "rep = \<lparr>code = 207, payload = DelayedBody (length ok) (of_nat (clock st' - clock st) / 1000) ok fail\<rparr>"
    by auto
  have ne: "new_events st st' = compile_events b @ new"
    using run(1) st1(1) by (simp add: new_events_eq)
  have a: "steps (new_events st st') =
      concat (map (schedule (htmlTemplate_of c b) (sender E N b) b) (enumerate 0 (recipients b)))"
    by (simp add: ne run(2))
  have o: "map m_to (sent (new_events st st')) =
      map (\<lambda>r. Some (fmt r)) (filter (renders (htmlTemplate_of c b)) (recipients b))"
    by (simp add: ne run(3) delayed_message_def comp_def)
  have tm: "timeout_of (delay_ms b) = nat (delaySeconds_of b * 1000)"
    using assms(3,5) by (simp add: timeout_of_def delay_ms_def)
  have s: "sleeps (new_events st st') =
      replicate (length (recipients b) - 1) (nat (delaySeconds_of b * 1000))"
    by (simp add: ne run(4) tm)
  have k: "clock st' = clock st + sum_list (map wait (new_events st st'))"
    by (simp add: ne run(5) st1(2))
  have "sum_list (sleeps (new_events st st')) \<le> sum_list (map wait (new_events st st'))"
    by (rule sleeps_le_wait)
  then have "(length (recipients b) - 1) * nat (delaySeconds_of b * 1000) \<le> clock st' - clock st"
    unfolding s k by (simp add: sum_list_replicate)
  moreover have "nat (delaySeconds_of b * 1000) = nat (delaySeconds_of b) * 1000"
    using assms(3) by (simp add: nat_mult_distrib)
  ultimately have "(length (recipients b) - 1) * nat (delaySeconds_of b) * 1000 \<le> clock st' - clock st"
    by simp
  then have "(of_nat ((length (recipients b) - 1) * nat (delaySeconds_of b) * 1000) :: rat)
      \<le> of_nat (clock st' - clock st)"
    by (rule of_nat_mono)
  moreover have "(of_nat (nat (delaySeconds_of b)) :: rat) = of_int (delaySeconds_of b)"
    using assms(3) by simp
  ultimately have "of_nat (length (recipients b) - 1) * of_int (delaySeconds_of b)
      \<le> (of_nat (clock st' - clock st) / 1000 :: rat)"
    by (simp add: le_divide_eq)
  with a o s k run(6) show ?thesis
    by blast
qed

lemma status_codes:
  assumes "createSendHandler c (Some t) E N b st = (rep, st')" and "has_content b"
  shows "code rep =
           (if individual_of b \<or> delaySeconds_of b > 0 then (if compiles c b then 207 else 500)
            else (case fst (t (bcc_message (sender E N b) b) (world st)) of
                    Inr i \<Rightarrow> 200 | Inl e \<Rightarrow> 500))"
proof (cases "individual_of b \<or> delaySeconds_of b > 0")
  case False
  with handler_run [OF assms] have "sendBcc t (sender E N b) b st = (rep, st')" by simp
  from sendBcc_run [OF this] False show ?thesis
    by (auto split: sum.splits)
next
  case branch: True
  with handler_run [OF assms] obtain st1 where st1:
    "if compiles c b then
       (if delaySeconds_of b > 0
        then sendDelayed t (htmlTemplate_of c b) (sender E N b) b (clock st) st1 = (rep, st')
        else sendIndividual t (sender E N b) b st1 = (rep, st'))
     else (\<exists>e. rep = \<lparr>code = 500, payload = ErrorBody ''EMAIL_SEND_FAILED'' e\<rparr>) \<and> st' = st1"
    by auto
  show ?thesis
  proof (cases "compiles c b")
    case False
    with st1 branch show ?thesis by auto
  next
    case yes: True
    show ?thesis
    proof (cases "delaySeconds_of b > 0")
      case True
      with st1 yes have "sendDelayed t (htmlTemplate_of c b) (sender E N b) b (clock st) st1 = (rep, st')"
        by simp
      from sendDelayed_run [OF this] branch yes show ?thesis
        by auto
    next
      case False
      with st1 yes have "sendIndividual t (sender E N b) b st1 = (rep, st')"
        by simp
      from sendIndividual_run [OF this] branch yes show ?thesis
        by auto
    qed
  qed
qed

lemma context_run:
  assumes "createSendHandler c (Some t) E N b st = (rep, st')" and "has_content b"
    and "individual_of b \<or> delaySeconds_of b > 0" and "compiles c b"
  shows "(delaySeconds_of b > 0 \<and> truthy (template b) \<longrightarrow>
            map m_context (sent (new_events st st')) =
              map (\<lambda>r. Some (context_of b ++ own_properties r))
                (filter (renders (htmlTemplate_of c b)) (recipients b)))
       \<and> (\<not> delaySeconds_of b > 0 \<and> truthy (template b) \<longrightarrow>
            map m_context (sent (new_events st st')) = map (\<lambda>r. Some (context_of b)) (recipients b))"
proof -
  from handler_sent [OF assms(1,2)] assms(3,4) obtain new where
    "trace st' = trace st @ new"
    "sent new =
       (if delaySeconds_of b > 0
        then map (delayed_message (htmlTemplate_of c b) (sender E N b) b)
               (filter (renders (htmlTemplate_of c b)) (recipients b))
        else map (individual_message (sender E N b) b) (recipients b))"
    by auto
  then have "sent (new_events st st') =
       (if delaySeconds_of b > 0
        then map (delayed_message (htmlTemplate_of c b) (sender E N b) b)
               (filter (renders (htmlTemplate_of c b)) (recipients b))
        else map (individual_message (sender E N b) b) (recipients b))"
    by (simp add: new_events_eq)
  then show ?thesis
    by (simp add: delayed_message_def individual_message_def mail_def comp_def)
qed

section \<open>The claims\<close>



text \<open>
  Claim C2 against the code. The claim holds of the concurrent individual mode where it runs
  (\<open>individual_run\<close>), but a request with raw HTML never gets there: \<open>hbs.compile(html)\<close>
  at line 289 throws before the sends, although this mode never uses the compiled template.
  The run of the schema's example request with \<open>delaySeconds\<close> 0, on a configured account:
  the request passes the schema, has \<open>individual\<close> true and two recipients; the reply is 500
  \<open>EMAIL_SEND_FAILED\<close>, the only event is the compile step, no message is handed to the
  transport, and no recipient is in \<open>ok\<close> or \<open>fail\<close>.
\<close>
theorem individual_html_run:
  "individual_of (example_request\<lparr>delaySeconds := Some 0\<rparr>) \<and>
   delaySeconds_of (example_request\<lparr>delaySeconds := Some 0\<rparr>) = 0 \<and>
   length (recipients (example_request\<lparr>delaySeconds := Some 0\<rparr>)) = 2 \<and>
   demo_run [] (example_request\<lparr>delaySeconds := Some 0\<rparr>) =
     (\<lparr>code = 500, payload = ErrorBody ''EMAIL_SEND_FAILED'' ''hbs.compile is not a function''\<rparr>,
      demo_state\<lparr>trace := [Compiled ''<p>Promo content</p>'']\<rparr>) \<and>
   sent (trace (snd (demo_run [] (example_request\<lparr>delaySeconds := Some 0\<rparr>)))) = [] \<and>
   ok_list (payload (fst (demo_run [] (example_request\<lparr>delaySeconds := Some 0\<rparr>)))) = [] \<and>
   fail_list (payload (fst (demo_run [] (example_request\<lparr>delaySeconds := Some 0\<rparr>)))) = []"
proof -
  let ?b = "example_request\<lparr>delaySeconds := Some 0\<rparr>"
  have "truthy (html ?b)" "individual_of ?b \<or> delaySeconds_of ?b > 0"
    by (simp_all add: demo_facts)
  from plugin_throws [OF this, of "demo_transport []" "Some ''main@acct.io''" None demo_state]
  have "demo_run [] ?b =
     (\<lparr>code = 500, payload = ErrorBody ''EMAIL_SEND_FAILED'' ''hbs.compile is not a function''\<rparr>,
      demo_state\<lparr>trace := [Compiled ''<p>Promo content</p>'']\<rparr>)"
    by (simp add: demo_run_def compile_events_def example_request_def demo_state_def)
  moreover have "individual_of ?b" "delaySeconds_of ?b = 0"
    by simp_all
  moreover have "length (recipients ?b) = 2"
    by (simp add: example_request_def)
  ultimately show ?thesis
    by (simp add: demo_state_def)
qed

text \<open>
  Claim C3. In BCC mode (\<open>individual\<close> false, \<open>delaySeconds\<close> zero), for a request with
  content on a configured account, the handler adds exactly one event to the trace: one
  transport call, with no \<open>to\<close> field, whose blind-copy field is the recipients in list
  order, one entry each, joined by comma and space; an entry is \<open>"Name" <email>\<close> when the
  recipient has a name that is not the empty string, and the bare email otherwise.
\<close>
theorem bcc_dispatch:
  assumes "createSendHandler c (Some t) E N b st = (rep, st')"
    and "has_content b" and "\<not> individual_of b" and "delaySeconds_of b = 0"
  shows "\<exists>k. new_events st st' =
           [Sent (mail (sender E N b) None
                    (Some (join '', ''
                       (map (\<lambda>r. case name r of
                                    None \<Rightarrow> email r
                                  | Some n \<Rightarrow>
                                      if n = [] then email r
                                      else [CHR 0x22] @ n @ [CHR 0x22] @ '' <'' @ email r @ ''>'')
                          (recipients b))))
                    b (context_of b) (html b)) k]"
proof -
  from assms handler_run [OF assms(1,2)] have "sendBcc t (sender E N b) b st = (rep, st')"
    by simp
  from sendBcc_run [OF this] obtain k where
    "trace st' = trace st @ [Sent (bcc_message (sender E N b) b) k]"
    by auto
  then have "new_events st st' = [Sent (bcc_message (sender E N b) b) k]"
    by (rule new_events_eq)
  moreover have "fmt = (\<lambda>r. case name r of None \<Rightarrow> email r
      | Some n \<Rightarrow> if n = [] then email r else [CHR 0x22] @ n @ [CHR 0x22] @ '' <'' @ email r @ ''>'')"
    by (auto simp: fmt_def dq_def fun_eq_iff split: option.splits)
  ultimately show ?thesis
    by (simp add: bcc_message_def)
qed

theorem bcc_dispatch_witness:
  "has_content demo_body \<and> \<not> individual_of demo_body \<and> delaySeconds_of demo_body = 0 \<and>
   (\<exists>k. new_events demo_state (snd (demo_run [] demo_body)) =
      [Sent \<lparr>m_from = [CHR 0x22] @ ''No-Reply'' @ [CHR 0x22] @ '' <main@acct.io>'',
             m_to = None,
             m_bcc = Some ([CHR 0x22] @ ''Ann'' @ [CHR 0x22] @ '' <a@x.io>, b@x.io''),
             m_subject = ''Hi'', m_template = None, m_context = None,
             m_html = Some ''<p>Hello</p>''\<rparr> k])"
  using bcc_dispatch [OF demo_run_eq, of demo_body "[]"]
  by (simp add: has_content_def truthy_def demo_body_def individual_of_def delaySeconds_of_def
      mail_def sender_def from_header_def displayName_def js_or_def interp_def dq_def)

text \<open>
  Claim C4 against the code. The delayed mode merges the global context with the
  recipient's own fields for a named template (line 309, \<open>context_run\<close>), but the
  concurrent individual mode passes the global context as it is (line 350). The run of a
  request with a named template, the global context \<open>{city: "X"}\<close>, \<open>individual\<close> true and
  no delay: no message has the recipient's \<open>email\<close> in its context, which the merged
  context has, so the contexts sent are not the merged ones.
\<close>
theorem individual_context_run:
  "individual_of template_body \<and> delaySeconds_of template_body = 0 \<and>
   map (\<lambda>m. case m_context m of None \<Rightarrow> None | Some ctx \<Rightarrow> ctx ''email'')
     (sent (trace (snd (demo_run [] template_body)))) = [None, None] \<and>
   map (\<lambda>r. (context_of template_body ++ own_properties r) ''email'') (recipients template_body) =
     [Some (JStr ''a@x.io''), Some (JStr ''b@x.io'')] \<and>
   map m_context (sent (trace (snd (demo_run [] template_body)))) \<noteq>
     map (\<lambda>r. Some (context_of template_body ++ own_properties r)) (recipients template_body)"
proof -
  let ?sent = "sent (trace (snd (demo_run [] template_body)))"
  let ?at = "\<lambda>c. case c of None \<Rightarrow> None | Some ctx \<Rightarrow> ctx ''email''"
  have got: "map (\<lambda>m. ?at (m_context m)) ?sent = [None, None]"
    by (simp add: demo_run_def createSendHandler_def compile_html_def template_body_def
        individual_of_def delaySeconds_of_def truthy_def Let_def demo_state_def sendIndividual_def
        allSettled_def demo_transport_def settle_def context_of_def mail_def)
  have merged: "map (\<lambda>r. (context_of template_body ++ own_properties r) ''email'')
      (recipients template_body) = [Some (JStr ''a@x.io''), Some (JStr ''b@x.io'')]"
    by (simp add: template_body_def context_of_def own_properties_def)
  have "map m_context ?sent \<noteq>
      map (\<lambda>r. Some (context_of template_body ++ own_properties r)) (recipients template_body)"
  proof
    assume "map m_context ?sent =
      map (\<lambda>r. Some (context_of template_body ++ own_properties r)) (recipients template_body)"
    then have "map ?at (map m_context ?sent) =
      map ?at (map (\<lambda>r. Some (context_of template_body ++ own_properties r)) (recipients template_body))"
      by (rule arg_cong)
    then have "map (\<lambda>m. ?at (m_context m)) ?sent =
      map (\<lambda>r. (context_of template_body ++ own_properties r) ''email'') (recipients template_body)"
      by (simp add: comp_def)
    with got merged show False
      by simp
  qed
  with got merged show ?thesis
    by simp
qed

text \<open>
  Claim C5 against the code. The delayed mode does what the claim says where it runs and
  the delay fits a timer (\<open>delayed_run\<close>); two requests show where the code misses it. The
  schema's example request (raw HTML, \<open>delaySeconds\<close> 3, two recipients): \<open>hbs.compile(html)\<close>
  throws before the loop, so there is no delay and no send, and the reply is 500 with no
  \<open>durationSeconds\<close>. A request with a named template, two recipients and \<open>delaySeconds\<close>
  2147484: the delay of 2147484000 ms is more than a timer takes, the one delay lasts 1 ms,
  and the reply reports 1.001 seconds, less than \<open>(N - 1) * d\<close>.
\<close>
theorem delayed_html_run:
  "delaySeconds_of example_request = 3 \<and> length (recipients example_request) = 2 \<and>
   demo_run [] example_request =
     (\<lparr>code = 500, payload = ErrorBody ''EMAIL_SEND_FAILED'' ''hbs.compile is not a function''\<rparr>,
      demo_state\<lparr>trace := [Compiled ''<p>Promo content</p>'']\<rparr>) \<and>
   sent (trace (snd (demo_run [] example_request))) = [] \<and>
   sleeps (trace (snd (demo_run [] example_request))) = [] \<and>
   length (recipients (template_body\<lparr>delaySeconds := Some 2147484\<rparr>)) = 2 \<and>
   sleeps (trace (snd (demo_run [] (template_body\<lparr>delaySeconds := Some 2147484\<rparr>)))) = [1] \<and>
   clock (snd (demo_run [] (template_body\<lparr>delaySeconds := Some 2147484\<rparr>))) = 1001 \<and>
   fst (demo_run [] (template_body\<lparr>delaySeconds := Some 2147484\<rparr>)) =
     \<lparr>code = 207,
      payload = DelayedBody 2 (1001 / 1000)
        [\<lparr>ok_recipient = ''a@x.io'', ok_messageId = ''<1@relay>'', ok_accepted = []\<rparr>,
         \<lparr>ok_recipient = ''b@x.io'', ok_messageId = ''<1@relay>'', ok_accepted = []\<rparr>] []\<rparr> \<and>
   (1001 / 1000 :: rat) < of_nat (2 - 1) * of_int 2147484"
proof -
  have "truthy (html example_request)" "individual_of example_request \<or> delaySeconds_of example_request > 0"
    by (simp_all add: demo_facts)
  from plugin_throws [OF this, of "demo_transport []" "Some ''main@acct.io''" None demo_state]
  have x: "demo_run [] example_request =
     (\<lparr>code = 500, payload = ErrorBody ''EMAIL_SEND_FAILED'' ''hbs.compile is not a function''\<rparr>,
      demo_state\<lparr>trace := [Compiled ''<p>Promo content</p>'']\<rparr>)"
    by (simp add: demo_run_def compile_events_def example_request_def demo_state_def)
  have y: "sleeps (trace (snd (demo_run [] (template_body\<lparr>delaySeconds := Some 2147484\<rparr>)))) = [1]"
    "clock (snd (demo_run [] (template_body\<lparr>delaySeconds := Some 2147484\<rparr>))) = 1001"
    "fst (demo_run [] (template_body\<lparr>delaySeconds := Some 2147484\<rparr>)) =
     \<lparr>code = 207,
      payload = DelayedBody 2 (1001 / 1000)
        [\<lparr>ok_recipient = ''a@x.io'', ok_messageId = ''<1@relay>'', ok_accepted = []\<rparr>,
         \<lparr>ok_recipient = ''b@x.io'', ok_messageId = ''<1@relay>'', ok_accepted = []\<rparr>] []\<rparr>"
    by (simp_all add: demo_run_def createSendHandler_def compile_html_def template_body_def
        individual_of_def delaySeconds_of_def truthy_def Let_def demo_state_def sendDelayed_def
        delayed_send_def render_for_def await_sendMail_def sleep_def timeout_of_def
        demo_transport_def)
  have z: "delaySeconds_of example_request = 3" "length (recipients example_request) = 2"
    "length (recipients (template_body\<lparr>delaySeconds := Some 2147484\<rparr>)) = 2"
    "(1001 / 1000 :: rat) < of_nat (2 - 1) * of_int 2147484"
    by (simp_all add: example_request_def template_body_def delaySeconds_of_def)
  have w: "sent (trace (snd (demo_run [] example_request))) = []"
    "sleeps (trace (snd (demo_run [] example_request))) = []"
    by (simp_all add: x demo_state_def)
  from x y z w show ?thesis
    by blast
qed

text \<open>
  Claim C6 against the code. The individual modes reply 207 whatever the sends do, and the
  BCC mode 200 or 500 (\<open>status_codes\<close>); but on a request with raw HTML the individual
  modes reply 500, because \<open>hbs.compile(html)\<close> at line 289 throws into the outer
  \<open>catch\<close>. The runs of the schema's example request, as it is (delayed mode) and with
  \<open>delaySeconds\<close> 0 (concurrent individual mode): both reply 500 \<open>EMAIL_SEND_FAILED\<close>.
\<close>
theorem example_status:
  "selectMode (individual_of example_request) (delaySeconds_of example_request) = ''individual_delayed'' \<and>
   selectMode (individual_of (example_request\<lparr>delaySeconds := Some 0\<rparr>))
     (delaySeconds_of (example_request\<lparr>delaySeconds := Some 0\<rparr>)) = ''individual'' \<and>
   fst (demo_run [] example_request) =
     \<lparr>code = 500, payload = ErrorBody ''EMAIL_SEND_FAILED'' ''hbs.compile is not a function''\<rparr> \<and>
   fst (demo_run [] (example_request\<lparr>delaySeconds := Some 0\<rparr>)) =
     \<lparr>code = 500, payload = ErrorBody ''EMAIL_SEND_FAILED'' ''hbs.compile is not a function''\<rparr> \<and>
   code (fst (demo_run [] example_request)) \<noteq> 207 \<and>
   code (fst (demo_run [] (example_request\<lparr>delaySeconds := Some 0\<rparr>))) \<noteq> 207"
proof -
  let ?b = "example_request\<lparr>delaySeconds := Some 0\<rparr>"
  have a: "truthy (html example_request)" "individual_of example_request \<or> delaySeconds_of example_request > 0"
    and b: "truthy (html ?b)" "individual_of ?b \<or> delaySeconds_of ?b > 0"
    by (simp_all add: demo_facts)
  from plugin_throws [OF a, of "demo_transport []" "Some ''main@acct.io''" None demo_state]
    plugin_throws [OF b, of "demo_transport []" "Some ''main@acct.io''" None demo_state]
  have "fst (demo_run [] example_request) =
     \<lparr>code = 500, payload = ErrorBody ''EMAIL_SEND_FAILED'' ''hbs.compile is not a function''\<rparr>"
    "fst (demo_run [] ?b) =
     \<lparr>code = 500, payload = ErrorBody ''EMAIL_SEND_FAILED'' ''hbs.compile is not a function''\<rparr>"
    by (simp_all add: demo_run_def)
  then show ?thesis
    by (simp add: selectMode_def)
qed

text \<open>
  Claim C7, as the code has it. In every reply of the concurrent individual mode and of the
  delayed mode, \<open>ok\<close> and \<open>fail\<close> are in the order of the recipient list: there is one flag
  per recipient, \<open>ok\<close> lists the addresses of the flagged recipients in list order and
  \<open>fail\<close> those of the others in list order. The concurrent mode reads the settled results
  by index, so the order in which the calls complete does not show: the claim as stated
  fails on the run below, where the second call completes first.
\<close>
theorem result_order:
  assumes "createSendHandler c tr E N b st = (rep, st')"
    and "mode (payload rep) = Some ''individual'' \<or> mode (payload rep) = Some ''individual_delayed''"
  shows "\<exists>flags. length flags = length (recipients b)
           \<and> map ok_recipient (ok_list (payload rep)) =
               map (email \<circ> fst) (filter (\<lambda>p. snd p = True) (zip (recipients b) flags))
           \<and> map fail_recipient (fail_list (payload rep)) =
               map (email \<circ> fst) (filter (\<lambda>p. snd p = False) (zip (recipients b) flags))"
proof -
  from handler_mode_inv [OF assms] obtain t where
    "tr = Some t" "has_content b" "individual_of b \<or> delaySeconds_of b > 0" "compiles c b"
    by blast
  with assms(1) handler_outcomes [of c t E N b st rep st'] show ?thesis
    by (simp add: chosen_def)
qed

theorem result_order_witness:
  "mode (payload (fst (demo_run [0] template_body))) = Some ''individual'' \<and>
   mode (payload (fst (demo_run [0] (template_body\<lparr>delaySeconds := Some 2\<rparr>)))) = Some ''individual_delayed'' \<and>
   (\<exists>flags. length flags = length (recipients template_body)
      \<and> map ok_recipient (ok_list (payload (fst (demo_run [0] template_body)))) =
          map (email \<circ> fst) (filter (\<lambda>p. snd p = True) (zip (recipients template_body) flags))
      \<and> map fail_recipient (fail_list (payload (fst (demo_run [0] template_body)))) =
          map (email \<circ> fst) (filter (\<lambda>p. snd p = False) (zip (recipients template_body) flags))) \<and>
   map ok_recipient (ok_list (payload (fst (demo_run [0] template_body)))) = [''b@x.io''] \<and>
   map fail_recipient (fail_list (payload (fst (demo_run [0] template_body)))) = [''a@x.io''] \<and>
   map ok_recipient (ok_list (payload (fst (demo_run [0] (template_body\<lparr>delaySeconds := Some 2\<rparr>))))) =
     [''b@x.io''] \<and>
   map fail_recipient (fail_list (payload (fst (demo_run [0] (template_body\<lparr>delaySeconds := Some 2\<rparr>))))) =
     [''a@x.io'']"
proof -
  let ?d = "template_body\<lparr>delaySeconds := Some 2\<rparr>"
  have m: "mode (payload (fst (demo_run [0] template_body))) = Some ''individual''"
    "mode (payload (fst (demo_run [0] ?d))) = Some ''individual_delayed''"
    using handler_mode(2) [OF demo_run_eq [of "[0]" template_body]]
      handler_mode(2) [OF demo_run_eq [of "[0]" ?d]]
    by (simp_all add: demo_facts selectMode_def)
  note o = result_order [OF demo_run_eq [of "[0]" template_body] disjI1 [OF m(1)]]
  have e: "map ok_recipient (ok_list (payload (fst (demo_run [0] template_body)))) = [''b@x.io'']"
    "map fail_recipient (fail_list (payload (fst (demo_run [0] template_body)))) = [''a@x.io'']"
    by (simp_all add: demo_run_def createSendHandler_def compile_html_def template_body_def
        individual_of_def delaySeconds_of_def truthy_def Let_def demo_state_def sendIndividual_def
        allSettled_def demo_transport_def settle_def)
  have f: "map ok_recipient (ok_list (payload (fst (demo_run [0] ?d)))) = [''b@x.io'']"
    "map fail_recipient (fail_list (payload (fst (demo_run [0] ?d)))) = [''a@x.io'']"
    by (simp_all add: demo_run_def createSendHandler_def compile_html_def template_body_def
        individual_of_def delaySeconds_of_def truthy_def Let_def demo_state_def sendDelayed_def
        delayed_send_def render_for_def await_sendMail_def sleep_def timeout_of_def
        demo_transport_def)
  from m o e f show ?thesis
    by blast
qed

theorem result_order_counterexample:
  "map ok_recipient (ok_list (payload (fst (demo_run [] template_body)))) =
     [''a@x.io'', ''b@x.io''] \<and>
   completion_order (recipients template_body)
     (trace (snd (demo_run [] template_body))) =
     [''b@x.io'', ''a@x.io''] \<and>
   map ok_recipient (ok_list (payload (fst (demo_run [] template_body)))) \<noteq>
   completion_order (recipients template_body)
     (trace (snd (demo_run [] template_body)))"
  by (simp add: demo_run_def createSendHandler_def compile_html_def template_body_def
      individual_of_def delaySeconds_of_def truthy_def Let_def demo_state_def sendIndividual_def
      allSettled_def demo_transport_def settle_def completion_order_def)

text \<open>
  Claim C8. For an account whose SMTP user or password is missing from the environment (or
  empty), the handler of that account answers every request with status 500 and the error
  \<open>CONFIGURATION_ERROR\<close>, and leaves the state as it was: nothing is compiled, rendered
  or sent. On the route, a body that fails the schema is answered 400 by the framework
  before the handler runs; every other body gets the configuration error. The handler
  returns a reply in each case.
\<close>
theorem unconfigured_account:
  assumes "\<not> truthy (smtp_user e a) \<or> \<not> truthy (smtp_pass e a)"
  shows "createSendHandler c (transporter_of mk e a) (sender_email e a) (sender_name e a) b st =
           (\<lparr>code = 500, payload = ErrorBody ''CONFIGURATION_ERROR''
               ''This email channel is not configured on the server (missing ENV).''\<rparr>, st)
         \<and> endpoint fe c mk e a b st =
             (if SendEmailRequest fe b
              then (\<lparr>code = 500, payload = ErrorBody ''CONFIGURATION_ERROR''
                      ''This email channel is not configured on the server (missing ENV).''\<rparr>, st)
              else (\<lparr>code = 400, payload = ValidationFailure\<rparr>, st))"
proof -
  from assms have "transporter_of mk e a = None"
    by (auto simp: transporter_of_def createTransporter_def truthy_def split: option.splits)
  then show ?thesis
    by (simp add: endpoint_def post_route_def handler_unconfigured)
qed

theorem unconfigured_account_witness:
  "\<not> truthy (smtp_user demo_env Marketing) \<and> SendEmailRequest demo_format demo_body \<and>
   endpoint demo_format plugin_compile (\<lambda>u p. demo_transport []) demo_env Marketing demo_body demo_state =
     (\<lparr>code = 500, payload = ErrorBody ''CONFIGURATION_ERROR''
         ''This email channel is not configured on the server (missing ENV).''\<rparr>, demo_state)"
  using unconfigured_account [of demo_env Marketing plugin_compile "\<lambda>u p. demo_transport []"
      demo_body demo_state demo_format]
  by (simp add: demo_env_def truthy_def SendEmailRequest_def demo_body_def demo_format_def)

text \<open>
  Claim C9. A request that supplies neither \<open>template\<close> nor \<open>html\<close> fails the schema's
  \<open>anyOf\<close> and the route answers 400 with the state unchanged, on any account. A request
  whose \<open>template\<close> and \<open>html\<close> are both missing or empty, on a configured account, gets 400
  \<open>BAD_REQUEST\<close> from the handler; and on any account the route leaves the state unchanged
  for it: nothing is compiled, rendered or sent.
\<close>
theorem missing_content:
  "(template b = None \<and> html b = None \<longrightarrow>
      post_route fe c tr E N b st = (\<lparr>code = 400, payload = ValidationFailure\<rparr>, st))
   \<and> (\<not> truthy (template b) \<and> \<not> truthy (html b) \<longrightarrow>
        createSendHandler c (Some t) E N b st =
          (\<lparr>code = 400, payload = ErrorBody ''BAD_REQUEST'' ''Provide either 'template' or 'html'.''\<rparr>, st)
        \<and> snd (post_route fe c tr E N b st) = st)"
proof -
  have "snd (post_route fe c tr E N b st) = st" if "\<not> has_content b"
    using that by (cases tr) (simp_all add: post_route_def handler_unconfigured handler_no_content)
  then show ?thesis
    by (simp add: post_route_def SendEmailRequest_def handler_no_content has_content_def)
qed

theorem missing_content_witness:
  "template (demo_body\<lparr>html := None\<rparr>) = None \<and> html (demo_body\<lparr>html := None\<rparr>) = None \<and>
   post_route demo_format plugin_compile (Some (demo_transport [])) (Some ''main@acct.io'') None
     (demo_body\<lparr>html := None\<rparr>) demo_state = (\<lparr>code = 400, payload = ValidationFailure\<rparr>, demo_state) \<and>
   createSendHandler plugin_compile (Some (demo_transport [])) (Some ''main@acct.io'') None
     (demo_body\<lparr>html := Some ''''\<rparr>) demo_state =
     (\<lparr>code = 400, payload = ErrorBody ''BAD_REQUEST'' ''Provide either 'template' or 'html'.''\<rparr>, demo_state)"
  using missing_content [of "demo_body\<lparr>html := None\<rparr>" demo_format plugin_compile
      "Some (demo_transport [])" "Some ''main@acct.io''" None demo_state "demo_transport []"]
    missing_content [of "demo_body\<lparr>html := Some ''''\<rparr>" demo_format plugin_compile
      "Some (demo_transport [])" "Some ''main@acct.io''" None demo_state "demo_transport []"]
  by (simp add: demo_body_def truthy_def)

text \<open>
  Claim C10 against the code. The handler puts the request's \<open>from\<close> between the quotes of
  the display name as it is (line 270), and the schema puts no pattern on \<open>from\<close>; a
  \<open>from\<close> with a double quote in it closes the display name and goes on in the field. The
  runs of a BCC request on the account \<open>main@acct.io\<close>: with \<open>from\<close> the text
  \<open>Atlaz Team\<close> the \<open>from\<close> field is the one mailbox \<open>"Atlaz Team" <main@acct.io>\<close>; with
  \<open>from\<close> the text \<open>x" <evil@attacker.io>, "y\<close> the field is two mailboxes, as the handler
  itself writes a mailbox: first \<open>"x" <evil@attacker.io>\<close>, an address of the request's
  choosing, and only then \<open>"y" <main@acct.io>\<close>.
\<close>
theorem from_injection:
  "map m_from (sent (trace (snd (demo_run []
      (template_body\<lparr>individual := Some False, from' := Some ''Atlaz Team''\<rparr>))))) =
     [from_header ''Atlaz Team'' (Some ''main@acct.io'')] \<and>
   map m_from (sent (trace (snd (demo_run []
      (template_body\<lparr>individual := Some False,
         from' := Some (''x'' @ [CHR 0x22] @ '' <evil@attacker.io>, '' @ [CHR 0x22] @ ''y'')\<rparr>))))) =
     [from_header ''x'' (Some ''evil@attacker.io'') @ '', '' @ from_header ''y'' (Some ''main@acct.io'')] \<and>
   from_header ''x'' (Some ''evil@attacker.io'') @ '', '' @ from_header ''y'' (Some ''main@acct.io'') =
     [CHR 0x22] @ ''x'' @ [CHR 0x22] @ '' <evil@attacker.io>, '' @ [CHR 0x22] @ ''y'' @ [CHR 0x22] @
     '' <main@acct.io>''"
proof -
  let ?a = "template_body\<lparr>individual := Some False, from' := Some ''Atlaz Team''\<rparr>"
  let ?x = "template_body\<lparr>individual := Some False,
      from' := Some (''x'' @ [CHR 0x22] @ '' <evil@attacker.io>, '' @ [CHR 0x22] @ ''y'')\<rparr>"
  have p: "has_content ?a" "\<not> individual_of ?a" "delaySeconds_of ?a = 0"
    "has_content ?x" "\<not> individual_of ?x" "delaySeconds_of ?x = 0"
    by (simp_all add: demo_facts)
  have t: "trace (snd (demo_run [] ?a)) = new_events demo_state (snd (demo_run [] ?a))"
    "trace (snd (demo_run [] ?x)) = new_events demo_state (snd (demo_run [] ?x))"
    by (simp_all add: new_events_def demo_state_def)
  from bcc_sent [OF demo_run_eq [of "[]" ?a] p(1-3)] bcc_sent [OF demo_run_eq [of "[]" ?x] p(4-6)]
  show ?thesis
    unfolding t
    by (simp add: bcc_message_def sender_def displayName_def js_or_def from_header_def interp_def
        dq_def template_body_def)
qed

end
